theory Spec2Isabelle
  imports Main
begin

section \<open>The host: files, directories and the calls of the Python library\<close>

text \<open>
  \<^verbatim>\<open>config.py\<close> talks to the host through \<^verbatim>\<open>listdir\<close>, \<^verbatim>\<open>open\<close>, \<^verbatim>\<open>makedirs\<close>
  and \<^verbatim>\<open>os.remove\<close>. The host is a record: a map from path strings to nodes, the names
  \<^verbatim>\<open>listdir\<close> reports for a directory, and three sets of paths at which the host
  refuses a call (reading, creating or removing, taking data). A path is the string the
  program passes; two different strings are two different files (no symbolic links, no
  normalisation of paths). A Python \<^verbatim>\<open>str\<close> is a \<^typ>\<open>string\<close>, one \<^typ>\<open>char\<close> for
  each code point below 256. Every exception of the source is a value of \<open>error\<close>.
\<close>

datatype error =
    FileNotFoundError
  | PermissionError
  | IsADirectoryError
  | NotADirectoryError
  | FileExistsError
  | OSError
  | IndexError
  | Exception string

datatype node = File string | Dir

record host =
  nodes :: "string \<rightharpoonup> node"
  listing :: "string \<Rightarrow> string list"
  no_read :: "string set"
  no_write :: "string set"
  full :: "string set"

text \<open>\<^verbatim>\<open>open(p)\<close> and \<^verbatim>\<open>open(p, 'r')\<close>, read to the end: the text of the file.\<close>

definition open_r :: "host \<Rightarrow> string \<Rightarrow> error + string" where
  "open_r h p =
     (case nodes h p of
        None \<Rightarrow> Inl FileNotFoundError
      | Some Dir \<Rightarrow> Inl IsADirectoryError
      | Some (File c) \<Rightarrow> if p \<in> no_read h then Inl PermissionError else Inr c)"

definition listdir :: "host \<Rightarrow> string \<Rightarrow> error + string list" where
  "listdir h p =
     (case nodes h p of
        None \<Rightarrow> Inl FileNotFoundError
      | Some (File c) \<Rightarrow> Inl NotADirectoryError
      | Some Dir \<Rightarrow> if p \<in> no_read h then Inl PermissionError else Inr (listing h p))"

text \<open>
  The calls that change the host return the outcome and the host after the call; a call
  that raises leaves the host as it was.
\<close>

type_synonym 'a io = "host \<Rightarrow> (error + 'a) \<times> host"

definition bind_io :: "'a io \<Rightarrow> ('a \<Rightarrow> 'b io) \<Rightarrow> 'b io" where
  "bind_io m f h = (case m h of (Inl e, h') \<Rightarrow> (Inl e, h') | (Inr a, h') \<Rightarrow> f a h')"

text \<open>\<^verbatim>\<open>makedirs(p, exist_ok=True)\<close>; the directories above \<open>p\<close> are taken to exist.\<close>

definition makedirs :: "string \<Rightarrow> unit io" where
  "makedirs p h =
     (case nodes h p of
        Some Dir \<Rightarrow> (Inr (), h)
      | Some (File c) \<Rightarrow> (Inl FileExistsError, h)
      | None \<Rightarrow> if p \<in> no_write h then (Inl PermissionError, h)
                else (Inr (), h\<lparr>nodes := (nodes h)(p \<mapsto> Dir)\<rparr>))"

text \<open>\<^verbatim>\<open>open(p, 'w')\<close>: the file is created, or cut to nothing. What makes the host
  refuse (no permission, a medium that is read-only, no directory above) is a path of
  \<open>no_write\<close>.\<close>

definition open_w :: "string \<Rightarrow> unit io" where
  "open_w p h =
     (case nodes h p of
        Some Dir \<Rightarrow> (Inl IsADirectoryError, h)
      | _ \<Rightarrow> if p \<in> no_write h then (Inl PermissionError, h)
             else (Inr (), h\<lparr>nodes := (nodes h)(p \<mapsto> File [])\<rparr>))"

text \<open>\<^verbatim>\<open>f.write(s)\<close> on the file opened at \<open>p\<close>: the text is appended.\<close>

definition f_write :: "string \<Rightarrow> string \<Rightarrow> unit io" where
  "f_write p s h =
     (case nodes h p of
        Some (File c) \<Rightarrow> if p \<in> full h then (Inl OSError, h)
                         else (Inr (), h\<lparr>nodes := (nodes h)(p \<mapsto> File (c @ s))\<rparr>)
      | _ \<Rightarrow> (Inl OSError, h))"

text \<open>\<^verbatim>\<open>os.remove(p)\<close>.\<close>

definition remove :: "string \<Rightarrow> unit io" where
  "remove p h =
     (case nodes h p of
        None \<Rightarrow> (Inl FileNotFoundError, h)
      | Some Dir \<Rightarrow> (Inl IsADirectoryError, h)
      | Some (File c) \<Rightarrow> if p \<in> no_write h then (Inl PermissionError, h)
                         else (Inr (), h\<lparr>nodes := (nodes h)(p := None)\<rparr>))"

text \<open>\<^verbatim>\<open>os.path.join(a, b)\<close> of \<^verbatim>\<open>posixpath\<close>, for two arguments.\<close>

definition path_join :: "string \<Rightarrow> string \<Rightarrow> string" where
  "path_join a b =
     (if b \<noteq> [] \<and> hd b = CHR ''/'' then b
      else if a = [] \<or> last a = CHR ''/'' then a @ b
      else a @ ''/'' @ b)"

section \<open>Strings: \<^verbatim>\<open>str.split()\<close> and \<^verbatim>\<open>readlines()\<close>\<close>

text \<open>The code points below 256 that \<^verbatim>\<open>str.split()\<close> takes as white space.\<close>

definition is_space :: "char \<Rightarrow> bool" where
  "is_space c = (c \<in> set [CHR 0x09, CHR 0x0A, CHR 0x0B, CHR 0x0C, CHR 0x0D,
                           CHR 0x1C, CHR 0x1D, CHR 0x1E, CHR 0x1F, CHR 0x20,
                           CHR 0x85, CHR 0xA0])"

text \<open>\<^verbatim>\<open>s.split()\<close>: the maximal runs of characters that are not white space; \<open>cur\<close> is the
  run being read.\<close>

fun split_from :: "string \<Rightarrow> string \<Rightarrow> string list" where
  "split_from cur [] = (if cur = [] then [] else [cur])"
| "split_from cur (c # cs) =
     (if is_space c then (if cur = [] then split_from [] cs else cur # split_from [] cs)
      else split_from (cur @ [c]) cs)"

definition str_split :: "string \<Rightarrow> string list" where
  "str_split s = split_from [] s"

text \<open>Text mode reads with universal newlines: \<^verbatim>\<open>\r\n\<close> and \<^verbatim>\<open>\r\<close> arrive as \<^verbatim>\<open>\n\<close>.\<close>

fun universal_newlines :: "string \<Rightarrow> string" where
  "universal_newlines [] = []"
| "universal_newlines [c] = (if c = CHR 0x0D then [CHR 0x0A] else [c])"
| "universal_newlines (c # d # cs) =
     (if c = CHR 0x0D then
        (if d = CHR 0x0A then CHR 0x0A # universal_newlines cs
         else CHR 0x0A # universal_newlines (d # cs))
      else c # universal_newlines (d # cs))"

text \<open>The lines of a text, each with its line end; \<open>cur\<close> is the line being read.\<close>

fun lines_from :: "string \<Rightarrow> string \<Rightarrow> string list" where
  "lines_from cur [] = (if cur = [] then [] else [cur])"
| "lines_from cur (c # cs) =
     (if c = CHR 0x0A then (cur @ [c]) # lines_from [] cs else lines_from (cur @ [c]) cs)"

definition readlines :: "string \<Rightarrow> string list" where
  "readlines content = lines_from [] (universal_newlines content)"

section \<open>The program\<close>

definition CONFIG_FLAG :: string where
  "CONFIG_FLAG = ''.configure_me''"

text \<open>The two exceptions the program raises itself; the specification calls them
  \<open>UnsupportedPlatform\<close> and \<open>TargetNotFound\<close>.\<close>

definition UnsupportedPlatform :: error where
  "UnsupportedPlatform =
     Exception ''Couldn't list mounts. Maybe you're on Windows (not implemented)''"

definition TargetNotFound :: error where
  "TargetNotFound =
     Exception ''Couldn't find the flashed drive. Maybe it's already configured''"

text \<open>\<^verbatim>\<open>m.split()[1]\<close>: an \<^verbatim>\<open>IndexError\<close> when the line has fewer than two fields.\<close>

definition second_field :: "string \<Rightarrow> error + string" where
  "second_field m = (case str_split m of a # b # rest \<Rightarrow> Inr b | _ \<Rightarrow> Inl IndexError)"

text \<open>A list comprehension whose element expression may raise: the first exception ends it.\<close>

fun comprehension :: "('a \<Rightarrow> error + 'b) \<Rightarrow> 'a list \<Rightarrow> error + 'b list" where
  "comprehension f [] = Inr []"
| "comprehension f (x # xs) =
     (case f x of
        Inl e \<Rightarrow> Inl e
      | Inr y \<Rightarrow> (case comprehension f xs of Inl e \<Rightarrow> Inl e | Inr ys \<Rightarrow> Inr (y # ys)))"

text \<open>\<^verbatim>\<open>get_mounts\<close>: each \<^verbatim>\<open>try\<close> catches \<^verbatim>\<open>FileNotFoundError\<close> only.\<close>

definition get_mounts :: "host \<Rightarrow> error + string list" where
  "get_mounts h =
     (case listdir h ''/Volumes'' of
        Inr ds \<Rightarrow> Inr (map (\<lambda>d. ''/Volumes/'' @ d) ds)
      | Inl e \<Rightarrow>
          if e \<noteq> FileNotFoundError then Inl e
          else (case open_r h ''/proc/mounts'' of
                  Inr content \<Rightarrow> comprehension second_field (readlines content)
                | Inl e' \<Rightarrow>
                    if e' \<noteq> FileNotFoundError then Inl e' else Inl UnsupportedPlatform))"

text \<open>The \<^verbatim>\<open>for\<close> loop of \<^verbatim>\<open>find_data_mount\<close>: the bare \<^verbatim>\<open>except\<close> goes on to the next
  mount whatever \<^verbatim>\<open>open\<close> raised.\<close>

fun scan_mounts :: "host \<Rightarrow> string list \<Rightarrow> error + string" where
  "scan_mounts h [] = Inl TargetNotFound"
| "scan_mounts h (mount # rest) =
     (case open_r h (path_join mount CONFIG_FLAG) of
        Inl e \<Rightarrow> scan_mounts h rest
      | Inr c \<Rightarrow> Inr mount)"

definition find_data_mount :: "host \<Rightarrow> error + string" where
  "find_data_mount h =
     (case get_mounts h of Inl e \<Rightarrow> Inl e | Inr mounts \<Rightarrow> scan_mounts h mounts)"

text \<open>The marker of a mount can be opened for reading.\<close>

definition marked :: "host \<Rightarrow> string \<Rightarrow> bool" where
  "marked h mount = (\<not> isl (open_r h (path_join mount CONFIG_FLAG)))"

text \<open>The settings of one run, as \<^verbatim>\<open>Variables()\<close> delivers them: \<open>None\<close> is Python's
  \<^verbatim>\<open>None\<close>.\<close>

record Variables =
  final_image :: string
  ssh_key :: "string option"
  ssh_ca_key :: "string option"
  wifi_country :: string
  wifi_ssid :: "string option"
  wifi_password :: "string option"

text \<open>A value in an f-string: \<^verbatim>\<open>None\<close> is printed as the word.\<close>

definition format :: "string option \<Rightarrow> string" where
  "format v = (case v of None \<Rightarrow> ''None'' | Some s \<Rightarrow> s)"

abbreviation NL :: string where
  "NL \<equiv> [CHR 0x0A]"

definition make_supplicant :: "string \<Rightarrow> string option \<Rightarrow> string option \<Rightarrow> string" where
  "make_supplicant country ssid pw =
     ''ctrl_interface=DIR=/var/run/wpa_supplicant GROUP=netdev'' @ NL @
     ''update_config=1'' @ NL @
     ''country='' @ country @ NL @
     NL @
     ''network={'' @ NL @
     '' ssid=\"'' @ format ssid @ ''\"'' @ NL @
     '' psk=\"'' @ format pw @ ''\"'' @ NL @
     ''}'' @ NL"

definition return_io :: "'a \<Rightarrow> 'a io" where
  "return_io a h = (Inr a, h)"

text \<open>The closure \<^verbatim>\<open>make_data_dir\<close> of \<^verbatim>\<open>main\<close>, with the \<^verbatim>\<open>data_mount\<close> it captures.\<close>

definition make_data_dir :: "string \<Rightarrow> string \<Rightarrow> string io" where
  "make_data_dir data_mount name =
     (let dir = path_join data_mount name
      in bind_io (makedirs dir) (\<lambda>u. return_io dir))"

text \<open>The three blocks of \<^verbatim>\<open>main\<close> that write (\<^verbatim>\<open># SSH\<close>, \<^verbatim>\<open># WiFi\<close>, \<^verbatim>\<open># ab-flasher\<close>). A
  condition \<^verbatim>\<open>if vars.x:\<close> holds when \<open>x\<close> is a string that is not empty.\<close>

definition configure_ssh :: "Variables \<Rightarrow> string \<Rightarrow> unit io" where
  "configure_ssh vars data_mount =
     (case ssh_key vars of
        None \<Rightarrow> return_io ()
      | Some key \<Rightarrow>
          if key = [] then return_io ()
          else bind_io (make_data_dir data_mount ''ssh'') (\<lambda>ssh_dir.
                 bind_io (open_w (path_join ssh_dir ''authorized_keys'')) (\<lambda>u.
                   f_write (path_join ssh_dir ''authorized_keys'') (key @ NL))))"

definition configure_wifi :: "Variables \<Rightarrow> string \<Rightarrow> unit io" where
  "configure_wifi vars data_mount =
     (case wifi_ssid vars of
        None \<Rightarrow> return_io ()
      | Some ssid \<Rightarrow>
          if ssid = [] then return_io ()
          else bind_io (make_data_dir data_mount ''wifi'') (\<lambda>wifi_dir.
                 bind_io (open_w (path_join wifi_dir ''wpa_supplicant.conf'')) (\<lambda>u.
                   f_write (path_join wifi_dir ''wpa_supplicant.conf'')
                     (make_supplicant (wifi_country vars) (wifi_ssid vars)
                        (wifi_password vars)))))"

definition configure_ab_flasher :: "Variables \<Rightarrow> string \<Rightarrow> unit io" where
  "configure_ab_flasher vars data_mount =
     bind_io (open_w (path_join data_mount ''ab-flasher.env'')) (\<lambda>u.
       bind_io (f_write (path_join data_mount ''ab-flasher.env'')
                  (''AB_OS_IMAGE_URL='' @ final_image vars @ NL)) (\<lambda>u.
         bind_io (f_write (path_join data_mount ''ab-flasher.env'') (''AB_FORCE=true'' @ NL)) (\<lambda>u.
           f_write (path_join data_mount ''ab-flasher.env'') (''AB_VERBOSE=1'' @ NL))))"

text \<open>
  \<^verbatim>\<open>main\<close> from \<^verbatim>\<open>vars = Variables()\<close> on: the run that configures a volume. The branch
  before it writes the \<^verbatim>\<open>.env\<close> template and returns; the settings \<open>vars\<close> are what
  \<^verbatim>\<open>Variables()\<close> returned. The log lines are left out. The result is the outcome and
  the host as the run left it, also when an exception ended the run.
\<close>

definition main :: "Variables \<Rightarrow> unit io" where
  "main vars h =
     (case find_data_mount h of
        Inl e \<Rightarrow> (Inl e, h)
      | Inr data_mount \<Rightarrow>
          bind_io (configure_ssh vars data_mount) (\<lambda>u.
            bind_io (configure_wifi vars data_mount) (\<lambda>u.
              bind_io (configure_ab_flasher vars data_mount) (\<lambda>u.
                remove (path_join data_mount CONFIG_FLAG)))) h)"

section \<open>Paths and frames\<close>

text \<open>The first argument of \<^verbatim>\<open>os.path.join\<close> with the separator that the join puts
  after it.\<close>

definition with_sep :: "string \<Rightarrow> string" where
  "with_sep a = (if a = [] \<or> last a = CHR ''/'' then a else a @ ''/'')"

text \<open>Two hosts agree but for the nodes at the paths of \<open>S\<close>.\<close>

definition same_except :: "string set \<Rightarrow> host \<Rightarrow> host \<Rightarrow> bool" where
  "same_except S h h' =
     ((\<forall>q. q \<notin> S \<longrightarrow> nodes h' q = nodes h q) \<and> listing h' = listing h \<and>
      no_read h' = no_read h \<and> no_write h' = no_write h \<and> full h' = full h)"

text \<open>The paths a run on the volume \<open>t\<close> with the settings \<open>vars\<close> may create or write.\<close>

definition ssh_paths :: "Variables \<Rightarrow> string \<Rightarrow> string set" where
  "ssh_paths vars t =
     (if ssh_key vars = None \<or> ssh_key vars = Some [] then {}
      else {with_sep t @ ''ssh'', with_sep t @ ''ssh/authorized_keys''})"

definition wifi_paths :: "Variables \<Rightarrow> string \<Rightarrow> string set" where
  "wifi_paths vars t =
     (if wifi_ssid vars = None \<or> wifi_ssid vars = Some [] then {}
      else {with_sep t @ ''wifi'', with_sep t @ ''wifi/wpa_supplicant.conf''})"

definition artifact_paths :: "Variables \<Rightarrow> string \<Rightarrow> string set" where
  "artifact_paths vars t = ssh_paths vars t \<union> wifi_paths vars t \<union> {with_sep t @ ''ab-flasher.env''}"

text \<open>The host lets a directory be made at \<open>d\<close>, a file be written at \<open>p\<close>, and the whole
  run go through on the volume \<open>t\<close>.\<close>

definition dir_ok :: "host \<Rightarrow> string \<Rightarrow> bool" where
  "dir_ok h d = (case nodes h d of None \<Rightarrow> d \<notin> no_write h | Some Dir \<Rightarrow> True | Some (File c) \<Rightarrow> False)"

definition file_ok :: "host \<Rightarrow> string \<Rightarrow> bool" where
  "file_ok h p = (nodes h p \<noteq> Some Dir \<and> p \<notin> no_write h \<and> p \<notin> full h)"

definition accepts :: "host \<Rightarrow> Variables \<Rightarrow> string \<Rightarrow> bool" where
  "accepts h vars t =
     ((ssh_key vars = None \<or> ssh_key vars = Some [] \<or>
         dir_ok h (with_sep t @ ''ssh'') \<and> file_ok h (with_sep t @ ''ssh/authorized_keys'')) \<and>
      (wifi_ssid vars = None \<or> wifi_ssid vars = Some [] \<or>
         dir_ok h (with_sep t @ ''wifi'') \<and> file_ok h (with_sep t @ ''wifi/wpa_supplicant.conf'')) \<and>
      file_ok h (with_sep t @ ''ab-flasher.env'') \<and>
      with_sep t @ ''.configure_me'' \<notin> no_write h)"

section \<open>Hosts and settings to run the program on\<close>

definition mac_host :: host where
  "mac_host =
     \<lparr>nodes = [''/Volumes'' \<mapsto> Dir, ''/Volumes/Macintosh HD'' \<mapsto> Dir,
               ''/Volumes/boot'' \<mapsto> Dir, ''/Volumes/boot/.configure_me'' \<mapsto> File []],
      listing = (\<lambda>p. if p = ''/Volumes'' then [''Macintosh HD'', ''boot''] else []),
      no_read = {}, no_write = {}, full = {}\<rparr>"

definition linux_host :: host where
  "linux_host =
     \<lparr>nodes = [''/proc/mounts'' \<mapsto>
                 File (''proc /proc proc rw 0 0'' @ NL @ ''/dev/sda1 / ext4 rw 0 0'' @ NL @
                       ''/dev/sdb2 /media/data ext4 rw 0 0'' @ NL),
               ''/'' \<mapsto> Dir, ''/media/data'' \<mapsto> Dir,
               ''/media/data/.configure_me'' \<mapsto> File []],
      listing = (\<lambda>p. []),
      no_read = {}, no_write = {}, full = {}\<rparr>"

definition round_trip_vars :: Variables where
  "round_trip_vars =
     \<lparr>final_image = ''http://x/img.gz'', ssh_key = Some ''ssh-ed25519 AAAA... user@host'',
      ssh_ca_key = None, wifi_country = ''US'', wifi_ssid = Some ''Home'',
      wifi_password = Some ''secret''\<rparr>"

definition image_only_vars :: Variables where
  "image_only_vars =
     \<lparr>final_image = ''http://x/img.gz'', ssh_key = None, ssh_ca_key = None,
      wifi_country = ''NZ'', wifi_ssid = None, wifi_password = None\<rparr>"

definition no_password_vars :: Variables where
  "no_password_vars =
     \<lparr>final_image = ''http://x/img.gz'', ssh_key = None, ssh_ca_key = None,
      wifi_country = ''NZ'', wifi_ssid = Some ''Home'', wifi_password = None\<rparr>"

definition locked_host :: host where
  "locked_host = mac_host\<lparr>no_write := {''/Volumes/boot/ab-flasher.env''}\<rparr>"

definition unlistable_host :: host where
  "unlistable_host =
     linux_host\<lparr>nodes := (nodes linux_host)(''/Volumes'' \<mapsto> Dir), no_read := {''/Volumes''}\<rparr>"

definition blank_line_host :: host where
  "blank_line_host =
     linux_host\<lparr>nodes := (nodes linux_host)(''/proc/mounts'' \<mapsto>
        File (''/dev/sdb2 /media/data ext4 rw 0 0'' @ NL @ NL))\<rparr>"

definition bare_host :: host where
  "bare_host = \<lparr>nodes = Map.empty, listing = (\<lambda>p. []), no_read = {}, no_write = {}, full = {}\<rparr>"

section \<open>What the calls and the blocks of the run do\<close>

lemma path_join_rel: "b \<noteq> [] \<Longrightarrow> hd b \<noteq> CHR ''/'' \<Longrightarrow> path_join a b = with_sep a @ b"
  by (simp add: path_join_def with_sep_def)

lemma with_sep_lit [simp]: "with_sep (xs @ ''ssh'') = xs @ ''ssh/''"
  "with_sep (xs @ ''wifi'') = xs @ ''wifi/''"
  by (simp_all add: with_sep_def)

lemma paths:
  "path_join t ''ssh'' = with_sep t @ ''ssh''"
  "path_join (path_join t ''ssh'') ''authorized_keys'' = with_sep t @ ''ssh/authorized_keys''"
  "path_join t ''wifi'' = with_sep t @ ''wifi''"
  "path_join (path_join t ''wifi'') ''wpa_supplicant.conf'' = with_sep t @ ''wifi/wpa_supplicant.conf''"
  "path_join t ''ab-flasher.env'' = with_sep t @ ''ab-flasher.env''"
  "path_join t CONFIG_FLAG = with_sep t @ ''.configure_me''"
  "path_join (with_sep t @ ''ssh'') ''authorized_keys'' = with_sep t @ ''ssh/authorized_keys''"
  "path_join (with_sep t @ ''wifi'') ''wpa_supplicant.conf'' = with_sep t @ ''wifi/wpa_supplicant.conf''"
  by (simp_all add: path_join_rel CONFIG_FLAG_def)

lemma same_except_refl: "same_except S h h"
  by (simp add: same_except_def)

lemma same_except_trans:
  "same_except S h h1 \<Longrightarrow> same_except T h1 h2 \<Longrightarrow> same_except (S \<union> T) h h2"
  by (simp add: same_except_def)

lemma same_except_mono: "same_except S h h' \<Longrightarrow> S \<subseteq> T \<Longrightarrow> same_except T h h'"
  by (auto simp: same_except_def)

lemma frame_makedirs: "makedirs p h = (r, h') \<Longrightarrow> same_except {p} h h'"
  by (auto simp: makedirs_def same_except_def split: option.splits node.splits if_splits)

lemma frame_open_w: "open_w p h = (r, h') \<Longrightarrow> same_except {p} h h'"
  by (auto simp: open_w_def same_except_def split: option.splits node.splits if_splits)

lemma frame_f_write: "f_write p s h = (r, h') \<Longrightarrow> same_except {p} h h'"
  by (auto simp: f_write_def same_except_def split: option.splits node.splits if_splits)

lemma frame_remove: "remove p h = (r, h') \<Longrightarrow> same_except {p} h h'"
  by (auto simp: remove_def same_except_def split: option.splits node.splits if_splits)

lemma frame_bind:
  assumes "bind_io m f h = (r, h')"
    and "\<And>r1 h1. m h = (r1, h1) \<Longrightarrow> same_except S h h1"
    and "\<And>a h1 r2 h2. f a h1 = (r2, h2) \<Longrightarrow> same_except T h1 h2"
  shows "same_except (S \<union> T) h h'"
proof (cases "m h")
  case (Pair r1 h1)
  note s1 = assms(2) [OF Pair]
  show ?thesis
  proof (cases r1)
    case (Inl e)
    with Pair assms(1) have "h' = h1" by (simp add: bind_io_def)
    with s1 show ?thesis by (auto intro: same_except_mono)
  next
    case (Inr a)
    with Pair assms(1) have "f a h1 = (r, h')" by (simp add: bind_io_def)
    from same_except_trans [OF s1 assms(3) [OF this]] show ?thesis .
  qed
qed

lemma frame_make_data_dir:
  "make_data_dir t name h = (r, h') \<Longrightarrow> same_except {path_join t name} h h'"
  by (auto simp: make_data_dir_def bind_io_def return_io_def Let_def
      split: prod.splits sum.splits dest: frame_makedirs)

lemma make_data_dir_result:
  "make_data_dir t name h = (Inr d, h') \<Longrightarrow> d = path_join t name \<and> nodes h' d = Some Dir"
  by (auto simp: make_data_dir_def bind_io_def return_io_def Let_def makedirs_def
      split: prod.splits sum.splits option.splits node.splits if_splits)


lemma bind_io_Inr:
  "bind_io m f h = (Inr b, h') \<Longrightarrow> \<exists>a h1. m h = (Inr a, h1) \<and> f a h1 = (Inr b, h')"
  by (cases "m h") (auto simp: bind_io_def split: sum.splits)

lemma bind_io_Inl:
  "bind_io m f h = (Inl e, h') \<Longrightarrow>
     m h = (Inl e, h') \<or> (\<exists>a h1. m h = (Inr a, h1) \<and> f a h1 = (Inl e, h'))"
  by (cases "m h") (auto simp: bind_io_def split: sum.splits)

lemma bind_io_ok: "m h = (Inr a, h1) \<Longrightarrow> bind_io m f h = f a h1"
  by (simp add: bind_io_def)

lemma makedirs_Inr: "makedirs d h = (Inr u, h') \<Longrightarrow> nodes h' d = Some Dir"
  by (auto simp: makedirs_def split: option.splits node.splits if_splits)

lemma open_w_Inr: "open_w p h = (Inr u, h') \<Longrightarrow> nodes h' p = Some (File [])"
  by (auto simp: open_w_def split: option.splits node.splits if_splits)

lemma f_write_Inr:
  "f_write p s h = (Inr u, h') \<Longrightarrow> nodes h p = Some (File c) \<Longrightarrow> nodes h' p = Some (File (c @ s))"
  by (auto simp: f_write_def split: option.splits node.splits if_splits)

lemma makedirs_progress:
  "\<forall>c. nodes h d \<noteq> Some (File c) \<Longrightarrow> nodes h d = None \<longrightarrow> d \<notin> no_write h \<Longrightarrow>
   \<exists>h'. makedirs d h = (Inr (), h')"
  by (auto simp: makedirs_def split: option.splits node.splits)

lemma open_w_progress:
  "nodes h p \<noteq> Some Dir \<Longrightarrow> p \<notin> no_write h \<Longrightarrow> \<exists>h'. open_w p h = (Inr (), h')"
  by (auto simp: open_w_def split: option.splits node.splits)

lemma f_write_progress:
  "nodes h p = Some (File c) \<Longrightarrow> p \<notin> full h \<Longrightarrow> \<exists>h'. f_write p s h = (Inr (), h')"
  by (auto simp: f_write_def)

lemma remove_Inr: "remove p h = (Inr u, h') \<Longrightarrow> nodes h' p = None"
  by (auto simp: remove_def split: option.splits node.splits if_splits)

lemma remove_Inl: "remove p h = (Inl e, h') \<Longrightarrow> h' = h"
  by (auto simp: remove_def split: option.splits node.splits if_splits)

lemma remove_progress:
  "nodes h p = Some (File c) \<Longrightarrow> p \<notin> no_write h \<Longrightarrow> \<exists>h'. remove p h = (Inr (), h')"
  by (auto simp: remove_def)

lemma write_file_frame:
  assumes "bind_io (open_w p) (\<lambda>u. f_write p s) h = (r, h')"
  shows "same_except {p} h h'"
proof -
  have "same_except ({p} \<union> {p}) h h'"
    by (rule frame_bind [OF assms]) (erule frame_open_w, erule frame_f_write)
  then show ?thesis by simp
qed

lemma write_file_result:
  assumes "bind_io (open_w p) (\<lambda>u. f_write p s) h = (Inr (), h')"
  shows "nodes h' p = Some (File s)"
proof -
  from bind_io_Inr [OF assms] obtain a h1
    where o: "open_w p h = (Inr a, h1)" and w: "f_write p s h1 = (Inr (), h')" by blast
  from f_write_Inr [OF w open_w_Inr [OF o]] show ?thesis by simp
qed

lemma write_file_progress:
  assumes "nodes h p \<noteq> Some Dir" "p \<notin> no_write h" "p \<notin> full h"
  shows "\<exists>h'. bind_io (open_w p) (\<lambda>u. f_write p s) h = (Inr (), h')"
proof -
  from open_w_progress [OF assms(1,2)] obtain h1 where o: "open_w p h = (Inr (), h1)" by blast
  from frame_open_w [OF o] assms(3) have "p \<notin> full h1" by (simp add: same_except_def)
  from f_write_progress [OF open_w_Inr [OF o] this]
  obtain h' where "f_write p s h1 = (Inr (), h')" by blast
  with o show ?thesis by (simp add: bind_io_ok)
qed

lemma dir_file_unfold:
  "bind_io (make_data_dir t name) (\<lambda>d. bind_io (open_w (path_join d f)) (\<lambda>u.
     f_write (path_join d f) s)) h =
   bind_io (makedirs (path_join t name)) (\<lambda>u.
     bind_io (open_w (path_join (path_join t name) f)) (\<lambda>u.
       f_write (path_join (path_join t name) f) s)) h"
  by (cases "makedirs (path_join t name) h")
     (simp add: make_data_dir_def bind_io_def return_io_def Let_def split: sum.splits)

lemma dir_file_frame:
  assumes "bind_io (makedirs d) (\<lambda>u. bind_io (open_w p) (\<lambda>u. f_write p s)) h = (r, h')"
  shows "same_except {d, p} h h'"
proof -
  have "same_except ({d} \<union> {p}) h h'"
    by (rule frame_bind [OF assms]) (erule frame_makedirs, erule write_file_frame)
  then show ?thesis by (simp add: insert_commute)
qed

lemma dir_file_result:
  assumes "bind_io (makedirs d) (\<lambda>u. bind_io (open_w p) (\<lambda>u. f_write p s)) h = (Inr (), h')"
  shows "nodes h' p = Some (File s)" and "d \<noteq> p \<Longrightarrow> nodes h' d = Some Dir"
proof -
  from bind_io_Inr [OF assms] obtain a h1
    where m: "makedirs d h = (Inr a, h1)"
      and w: "bind_io (open_w p) (\<lambda>u. f_write p s) h1 = (Inr (), h')" by blast
  from write_file_result [OF w] show "nodes h' p = Some (File s)" .
  assume "d \<noteq> p"
  with write_file_frame [OF w] makedirs_Inr [OF m] show "nodes h' d = Some Dir"
    by (simp add: same_except_def)
qed

lemma dir_file_progress:
  assumes "\<forall>c. nodes h d \<noteq> Some (File c)" "nodes h d = None \<longrightarrow> d \<notin> no_write h"
    "nodes h p \<noteq> Some Dir" "p \<notin> no_write h" "p \<notin> full h" "d \<noteq> p"
  shows "\<exists>h'. bind_io (makedirs d) (\<lambda>u. bind_io (open_w p) (\<lambda>u. f_write p s)) h = (Inr (), h')"
proof -
  from makedirs_progress [OF assms(1,2)] obtain h1 where m: "makedirs d h = (Inr (), h1)" by blast
  from frame_makedirs [OF m] assms(3-6)
  have "nodes h1 p \<noteq> Some Dir" "p \<notin> no_write h1" "p \<notin> full h1"
    by (simp_all add: same_except_def)
  from write_file_progress [OF this]
  obtain h' where "bind_io (open_w p) (\<lambda>u. f_write p s) h1 = (Inr (), h')" by blast
  with m show ?thesis by (simp add: bind_io_ok)
qed

lemma configure_ssh_skip:
  "ssh_key vars = None \<or> ssh_key vars = Some [] \<Longrightarrow> configure_ssh vars t h = (Inr (), h)"
  by (auto simp: configure_ssh_def return_io_def)

lemma configure_ssh_run:
  "ssh_key vars = Some k \<Longrightarrow> k \<noteq> [] \<Longrightarrow>
   configure_ssh vars t h =
     bind_io (makedirs (with_sep t @ ''ssh'')) (\<lambda>u.
       bind_io (open_w (with_sep t @ ''ssh/authorized_keys'')) (\<lambda>u.
         f_write (with_sep t @ ''ssh/authorized_keys'') (k @ NL))) h"
  by (simp add: configure_ssh_def dir_file_unfold paths)

lemma configure_wifi_skip:
  "wifi_ssid vars = None \<or> wifi_ssid vars = Some [] \<Longrightarrow> configure_wifi vars t h = (Inr (), h)"
  by (auto simp: configure_wifi_def return_io_def)

lemma configure_wifi_run:
  "wifi_ssid vars = Some s \<Longrightarrow> s \<noteq> [] \<Longrightarrow>
   configure_wifi vars t h =
     bind_io (makedirs (with_sep t @ ''wifi'')) (\<lambda>u.
       bind_io (open_w (with_sep t @ ''wifi/wpa_supplicant.conf'')) (\<lambda>u.
         f_write (with_sep t @ ''wifi/wpa_supplicant.conf'')
           (make_supplicant (wifi_country vars) (wifi_ssid vars) (wifi_password vars)))) h"
  by (simp add: configure_wifi_def dir_file_unfold paths)

lemma configure_ssh_frame:
  assumes "configure_ssh vars t h = (r, h')"
  shows "same_except (if ssh_key vars = None \<or> ssh_key vars = Some [] then {}
                      else {with_sep t @ ''ssh'', with_sep t @ ''ssh/authorized_keys''}) h h'"
proof (cases "ssh_key vars = None \<or> ssh_key vars = Some []")
  case True
  with assms configure_ssh_skip [OF True, of t h] show ?thesis
    by (simp add: same_except_refl)
next
  case False
  then obtain k where k: "ssh_key vars = Some k" "k \<noteq> []" by auto
  from assms have "same_except {with_sep t @ ''ssh'', with_sep t @ ''ssh/authorized_keys''} h h'"
    unfolding configure_ssh_run [OF k] by (rule dir_file_frame)
  with False show ?thesis by auto
qed

lemma configure_wifi_frame:
  assumes "configure_wifi vars t h = (r, h')"
  shows "same_except (if wifi_ssid vars = None \<or> wifi_ssid vars = Some [] then {}
                      else {with_sep t @ ''wifi'', with_sep t @ ''wifi/wpa_supplicant.conf''}) h h'"
proof (cases "wifi_ssid vars = None \<or> wifi_ssid vars = Some []")
  case True
  with assms configure_wifi_skip [OF True, of t h] show ?thesis
    by (simp add: same_except_refl)
next
  case False
  then obtain s where s: "wifi_ssid vars = Some s" "s \<noteq> []" by auto
  from assms have "same_except {with_sep t @ ''wifi'', with_sep t @ ''wifi/wpa_supplicant.conf''} h h'"
    unfolding configure_wifi_run [OF s] by (rule dir_file_frame)
  with False show ?thesis by auto
qed

lemma configure_ssh_result:
  assumes "configure_ssh vars t h = (Inr (), h')" "ssh_key vars = Some k" "k \<noteq> []"
  shows "nodes h' (with_sep t @ ''ssh/authorized_keys'') = Some (File (k @ NL))"
    and "nodes h' (with_sep t @ ''ssh'') = Some Dir"
  using assms(1) dir_file_result [of "with_sep t @ ''ssh''" "with_sep t @ ''ssh/authorized_keys''"]
  unfolding configure_ssh_run [OF assms(2,3)] by simp_all

lemma configure_wifi_result:
  assumes "configure_wifi vars t h = (Inr (), h')" "wifi_ssid vars = Some s" "s \<noteq> []"
  shows "nodes h' (with_sep t @ ''wifi/wpa_supplicant.conf'') =
           Some (File (make_supplicant (wifi_country vars) (wifi_ssid vars) (wifi_password vars)))"
    and "nodes h' (with_sep t @ ''wifi'') = Some Dir"
  using assms(1) dir_file_result [of "with_sep t @ ''wifi''" "with_sep t @ ''wifi/wpa_supplicant.conf''"]
  unfolding configure_wifi_run [OF assms(2,3)] by simp_all

lemma configure_ab_flasher_frame:
  assumes "configure_ab_flasher vars t h = (r, h')"
  shows "same_except {with_sep t @ ''ab-flasher.env''} h h'"
proof -
  let ?p = "with_sep t @ ''ab-flasher.env''"
  have "same_except ({?p} \<union> ({?p} \<union> ({?p} \<union> {?p}))) h h'"
    using assms unfolding configure_ab_flasher_def paths
    by (elim frame_bind frame_open_w frame_f_write)
  then show ?thesis by simp
qed

lemma configure_ab_flasher_result:
  assumes "configure_ab_flasher vars t h = (Inr (), h')"
  shows "nodes h' (with_sep t @ ''ab-flasher.env'') =
           Some (File (''AB_OS_IMAGE_URL='' @ final_image vars @ NL @ ''AB_FORCE=true'' @ NL @
                       ''AB_VERBOSE=1'' @ NL))"
proof -
  let ?p = "with_sep t @ ''ab-flasher.env''"
  from assms [unfolded configure_ab_flasher_def paths]
  obtain a h1 where o: "open_w ?p h = (Inr a, h1)"
    and r1: "bind_io (f_write ?p (''AB_OS_IMAGE_URL='' @ final_image vars @ NL)) (\<lambda>u.
               bind_io (f_write ?p (''AB_FORCE=true'' @ NL)) (\<lambda>u.
                 f_write ?p (''AB_VERBOSE=1'' @ NL))) h1 = (Inr (), h')"
    by (blast dest: bind_io_Inr)
  from r1 obtain b h2 where w1: "f_write ?p (''AB_OS_IMAGE_URL='' @ final_image vars @ NL) h1 = (Inr b, h2)"
    and r2: "bind_io (f_write ?p (''AB_FORCE=true'' @ NL)) (\<lambda>u.
                 f_write ?p (''AB_VERBOSE=1'' @ NL)) h2 = (Inr (), h')"
    by (blast dest: bind_io_Inr)
  from r2 obtain c h3 where w2: "f_write ?p (''AB_FORCE=true'' @ NL) h2 = (Inr c, h3)"
    and w3: "f_write ?p (''AB_VERBOSE=1'' @ NL) h3 = (Inr (), h')"
    by (blast dest: bind_io_Inr)
  note n1 = f_write_Inr [OF w1 open_w_Inr [OF o]]
  note n2 = f_write_Inr [OF w2 n1]
  note n3 = f_write_Inr [OF w3 n2]
  then show ?thesis by simp
qed

lemma main_located:
  "find_data_mount h = Inr t \<Longrightarrow>
   main vars h =
     bind_io (configure_ssh vars t) (\<lambda>u.
       bind_io (configure_wifi vars t) (\<lambda>u.
         bind_io (configure_ab_flasher vars t) (\<lambda>u.
           remove (with_sep t @ ''.configure_me'')))) h"
  by (simp add: main_def paths)

lemma main_not_located: "find_data_mount h = Inl e \<Longrightarrow> main vars h = (Inl e, h)"
  by (simp add: main_def)

lemma main_Inr:
  assumes "find_data_mount h = Inr t" "main vars h = (Inr (), h')"
  shows "\<exists>h1 h2 h3. configure_ssh vars t h = (Inr (), h1) \<and>
           configure_wifi vars t h1 = (Inr (), h2) \<and>
           configure_ab_flasher vars t h2 = (Inr (), h3) \<and>
           remove (with_sep t @ ''.configure_me'') h3 = (Inr (), h')"
proof -
  from assms(2) [unfolded main_located [OF assms(1)]]
  obtain a h1 where s1: "configure_ssh vars t h = (Inr a, h1)"
    and r1: "bind_io (configure_wifi vars t) (\<lambda>u.
         bind_io (configure_ab_flasher vars t) (\<lambda>u.
           remove (with_sep t @ ''.configure_me''))) h1 = (Inr (), h')"
    by (blast dest: bind_io_Inr)
  from r1 obtain b h2 where s2: "configure_wifi vars t h1 = (Inr b, h2)"
    and r2: "bind_io (configure_ab_flasher vars t) (\<lambda>u.
           remove (with_sep t @ ''.configure_me'')) h2 = (Inr (), h')"
    by (blast dest: bind_io_Inr)
  from r2 obtain c h3 where s3: "configure_ab_flasher vars t h2 = (Inr c, h3)"
    and r3: "remove (with_sep t @ ''.configure_me'') h3 = (Inr (), h')"
    by (blast dest: bind_io_Inr)
  from s1 s2 s3 r3 show ?thesis by auto
qed

lemma writes_frame:
  assumes "bind_io (configure_ssh vars t) (\<lambda>u.
       bind_io (configure_wifi vars t) (\<lambda>u. configure_ab_flasher vars t)) h = (r, h')"
  shows "same_except (artifact_paths vars t) h h'"
proof -
  have "same_except (ssh_paths vars t \<union> (wifi_paths vars t \<union> {with_sep t @ ''ab-flasher.env''})) h h'"
    unfolding ssh_paths_def wifi_paths_def
  proof (rule frame_bind [OF assms])
    fix a h1 r2 h2
    assume *: "bind_io (configure_wifi vars t) (\<lambda>u. configure_ab_flasher vars t) h1 = (r2, h2)"
    show "same_except ((if wifi_ssid vars = None \<or> wifi_ssid vars = Some [] then {}
            else {with_sep t @ ''wifi'', with_sep t @ ''wifi/wpa_supplicant.conf''}) \<union>
            {with_sep t @ ''ab-flasher.env''}) h1 h2"
      by (rule frame_bind [OF *]) (erule configure_wifi_frame, erule configure_ab_flasher_frame)
  qed (erule configure_ssh_frame)
  then show ?thesis by (simp add: artifact_paths_def Un_assoc)
qed

lemma bind_io_assoc: "bind_io (bind_io m f) g = bind_io m (\<lambda>a. bind_io (f a) g)"
proof
  fix h show "bind_io (bind_io m f) g h = bind_io m (\<lambda>a. bind_io (f a) g) h"
    by (cases "m h") (auto simp: bind_io_def split: sum.splits)
qed

lemma main_as_writes_then_remove:
  "find_data_mount h = Inr t \<Longrightarrow>
   main vars h =
     bind_io (bind_io (configure_ssh vars t) (\<lambda>u.
                bind_io (configure_wifi vars t) (\<lambda>u. configure_ab_flasher vars t)))
       (\<lambda>u. remove (with_sep t @ ''.configure_me'')) h"
  by (simp add: main_located bind_io_assoc)

lemma main_Inl_frame:
  assumes "find_data_mount h = Inr t" "main vars h = (Inl e, h')"
  shows "same_except (artifact_paths vars t) h h'"
proof -
  let ?w = "bind_io (configure_ssh vars t) (\<lambda>u.
                bind_io (configure_wifi vars t) (\<lambda>u. configure_ab_flasher vars t))"
  from assms(2) [unfolded main_as_writes_then_remove [OF assms(1)]]
  consider "?w h = (Inl e, h')"
    | a h1 where "?w h = (Inr a, h1)" "remove (with_sep t @ ''.configure_me'') h1 = (Inl e, h')"
    by (blast dest: bind_io_Inl)
  then show ?thesis
  proof cases
    case 1
    then show ?thesis by (rule writes_frame)
  next
    case 2
    from remove_Inl [OF 2(2)] writes_frame [OF 2(1)] show ?thesis by simp
  qed
qed

lemma main_frame:
  assumes "find_data_mount h = Inr t" "main vars h = (r, h')"
  shows "same_except (artifact_paths vars t \<union> {with_sep t @ ''.configure_me''}) h h'"
  by (rule frame_bind [OF assms(2) [unfolded main_as_writes_then_remove [OF assms(1)]]])
    (erule writes_frame, erule frame_remove)

lemma marker_not_artifact: "with_sep t @ ''.configure_me'' \<notin> artifact_paths vars t"
  by (simp add: artifact_paths_def ssh_paths_def wifi_paths_def)

lemma same_except_dir_ok: "same_except S h h' \<Longrightarrow> d \<notin> S \<Longrightarrow> dir_ok h' d = dir_ok h d"
  by (auto simp: same_except_def dir_ok_def split: option.splits node.splits)

lemma same_except_file_ok: "same_except S h h' \<Longrightarrow> p \<notin> S \<Longrightarrow> file_ok h' p = file_ok h p"
  by (simp add: same_except_def file_ok_def)

lemma dir_file_progress':
  assumes "dir_ok h d" "file_ok h p" "d \<noteq> p"
  shows "\<exists>h'. bind_io (makedirs d) (\<lambda>u. bind_io (open_w p) (\<lambda>u. f_write p s)) h = (Inr (), h')"
proof (rule dir_file_progress)
  from assms(1) show "\<forall>c. nodes h d \<noteq> Some (File c)" and "nodes h d = None \<longrightarrow> d \<notin> no_write h"
    by (auto simp: dir_ok_def split: option.splits node.splits)
  from assms(2) show "nodes h p \<noteq> Some Dir" "p \<notin> no_write h" "p \<notin> full h"
    by (simp_all add: file_ok_def)
qed (rule assms(3))

lemma configure_ssh_progress:
  assumes "ssh_key vars = None \<or> ssh_key vars = Some [] \<or>
         dir_ok h (with_sep t @ ''ssh'') \<and> file_ok h (with_sep t @ ''ssh/authorized_keys'')"
  shows "\<exists>h'. configure_ssh vars t h = (Inr (), h')"
proof (cases "ssh_key vars = None \<or> ssh_key vars = Some []")
  case True
  then show ?thesis by (simp add: configure_ssh_skip)
next
  case False
  then obtain k where k: "ssh_key vars = Some k" "k \<noteq> []" by auto
  from False assms show ?thesis
    unfolding configure_ssh_run [OF k] by (intro dir_file_progress') auto
qed

lemma configure_wifi_progress:
  assumes "wifi_ssid vars = None \<or> wifi_ssid vars = Some [] \<or>
         dir_ok h (with_sep t @ ''wifi'') \<and> file_ok h (with_sep t @ ''wifi/wpa_supplicant.conf'')"
  shows "\<exists>h'. configure_wifi vars t h = (Inr (), h')"
proof (cases "wifi_ssid vars = None \<or> wifi_ssid vars = Some []")
  case True
  then show ?thesis by (simp add: configure_wifi_skip)
next
  case False
  then obtain s where s: "wifi_ssid vars = Some s" "s \<noteq> []" by auto
  from False assms show ?thesis
    unfolding configure_wifi_run [OF s] by (intro dir_file_progress') auto
qed

lemma f_write_step:
  assumes "nodes h p = Some (File c)" "p \<notin> full h"
  shows "\<exists>h'. f_write p s h = (Inr (), h') \<and> nodes h' p = Some (File (c @ s)) \<and> p \<notin> full h'"
  using assms by (simp add: f_write_def)

lemma configure_ab_flasher_progress:
  assumes "file_ok h (with_sep t @ ''ab-flasher.env'')"
  shows "\<exists>h'. configure_ab_flasher vars t h = (Inr (), h')"
proof -
  let ?p = "with_sep t @ ''ab-flasher.env''"
  from assms have a: "nodes h ?p \<noteq> Some Dir" "?p \<notin> no_write h" "?p \<notin> full h"
    by (simp_all add: file_ok_def)
  from open_w_progress [OF a(1,2)] obtain h0 where o: "open_w ?p h = (Inr (), h0)" by blast
  from frame_open_w [OF o] a(3) have f0: "?p \<notin> full h0" by (simp add: same_except_def)
  from f_write_step [OF open_w_Inr [OF o] f0]
  obtain h1 where w1: "f_write ?p (''AB_OS_IMAGE_URL='' @ final_image vars @ NL) h0 = (Inr (), h1)"
    and n1: "nodes h1 ?p = Some (File ([] @ ''AB_OS_IMAGE_URL='' @ final_image vars @ NL))"
    and f1: "?p \<notin> full h1" by blast
  from f_write_step [OF n1 f1]
  obtain h2 where w2: "f_write ?p (''AB_FORCE=true'' @ NL) h1 = (Inr (), h2)"
    and n2: "nodes h2 ?p = Some (File (([] @ ''AB_OS_IMAGE_URL='' @ final_image vars @ NL) @ ''AB_FORCE=true'' @ NL))"
    and f2: "?p \<notin> full h2" by blast
  from f_write_step [OF n2 f2]
  obtain h3 where w3: "f_write ?p (''AB_VERBOSE=1'' @ NL) h2 = (Inr (), h3)" by blast
  from o w1 w2 w3 show ?thesis
    by (simp add: configure_ab_flasher_def paths bind_io_ok)
qed

lemma scan_mounts_marked: "scan_mounts h ms = Inr m \<Longrightarrow> m \<in> set ms \<and> marked h m"
  by (induction ms) (auto simp: marked_def split: sum.splits)

lemma find_data_mount_marked: "find_data_mount h = Inr t \<Longrightarrow> marked h t"
  by (auto simp: find_data_mount_def split: sum.splits dest: scan_mounts_marked)

lemma marked_file:
  "marked h t = ((\<exists>c. nodes h (with_sep t @ ''.configure_me'') = Some (File c)) \<and>
                 with_sep t @ ''.configure_me'' \<notin> no_read h)"
  by (auto simp: marked_def open_r_def paths split: option.splits node.splits)

lemma main_progress:
  assumes "find_data_mount h = Inr t" "accepts h vars t"
  shows "\<exists>h'. main vars h = (Inr (), h')"
proof -
  let ?m = "with_sep t @ ''.configure_me''"
  from find_data_mount_marked [OF assms(1)] obtain c where m: "nodes h ?m = Some (File c)"
    by (auto simp: marked_file)
  from assms(2) configure_ssh_progress [of vars h t]
  obtain h1 where s1: "configure_ssh vars t h = (Inr (), h1)" by (auto simp: accepts_def)
  note f1 = configure_ssh_frame [OF s1, folded ssh_paths_def]
  from assms(2) have "wifi_ssid vars = None \<or> wifi_ssid vars = Some [] \<or>
         dir_ok h1 (with_sep t @ ''wifi'') \<and> file_ok h1 (with_sep t @ ''wifi/wpa_supplicant.conf'')"
    by (auto simp: accepts_def same_except_dir_ok [OF f1] same_except_file_ok [OF f1] ssh_paths_def)
  from configure_wifi_progress [OF this]
  obtain h2 where s2: "configure_wifi vars t h1 = (Inr (), h2)" by blast
  note f2 = configure_wifi_frame [OF s2, folded wifi_paths_def]
  from assms(2) have "file_ok h2 (with_sep t @ ''ab-flasher.env'')"
    by (simp add: accepts_def same_except_file_ok [OF f1] same_except_file_ok [OF f2]
        ssh_paths_def wifi_paths_def)
  from configure_ab_flasher_progress [OF this]
  obtain h3 where s3: "configure_ab_flasher vars t h2 = (Inr (), h3)" by blast
  note f3 = configure_ab_flasher_frame [OF s3]
  from m f1 f2 f3 have m3: "nodes h3 ?m = Some (File c)"
    by (simp add: same_except_def ssh_paths_def wifi_paths_def)
  from assms(2) f1 f2 f3 have "?m \<notin> no_write h3"
    by (simp add: same_except_def accepts_def)
  from remove_progress [OF m3 this] obtain h' where "remove ?m h3 = (Inr (), h')" by blast
  with s1 s2 s3 show ?thesis
    by (simp add: main_located [OF assms(1)] bind_io_ok)
qed

lemmas run_defs = main_def find_data_mount_def get_mounts_def listdir_def open_r_def
  path_join_def CONFIG_FLAG_def bind_io_def return_io_def make_data_dir_def configure_ssh_def
  configure_wifi_def configure_ab_flasher_def makedirs_def open_w_def f_write_def remove_def
  Let_def make_supplicant_def format_def marked_def

lemma main_results:
  assumes "find_data_mount h = Inr t" "main vars h = (Inr (), h')"
  shows "nodes h' (with_sep t @ ''.configure_me'') = None"
    and "nodes h' (with_sep t @ ''ab-flasher.env'') =
           Some (File (''AB_OS_IMAGE_URL='' @ final_image vars @ NL @ ''AB_FORCE=true'' @ NL @
                       ''AB_VERBOSE=1'' @ NL))"
    and "ssh_key vars = Some k \<Longrightarrow> k \<noteq> [] \<Longrightarrow>
         nodes h' (with_sep t @ ''ssh/authorized_keys'') = Some (File (k @ NL))"
    and "wifi_ssid vars = Some s \<Longrightarrow> s \<noteq> [] \<Longrightarrow>
         nodes h' (with_sep t @ ''wifi/wpa_supplicant.conf'') =
           Some (File (make_supplicant (wifi_country vars) (wifi_ssid vars) (wifi_password vars)))"
proof -
  from main_Inr [OF assms] obtain h1 h2 h3
    where s1: "configure_ssh vars t h = (Inr (), h1)"
      and s2: "configure_wifi vars t h1 = (Inr (), h2)"
      and s3: "configure_ab_flasher vars t h2 = (Inr (), h3)"
      and s4: "remove (with_sep t @ ''.configure_me'') h3 = (Inr (), h')" by blast
  note f2 = configure_wifi_frame [OF s2, folded wifi_paths_def]
  note f3 = configure_ab_flasher_frame [OF s3]
  note f4 = frame_remove [OF s4]
  from remove_Inr [OF s4] show "nodes h' (with_sep t @ ''.configure_me'') = None" .
  from configure_ab_flasher_result [OF s3] f4
  show "nodes h' (with_sep t @ ''ab-flasher.env'') =
           Some (File (''AB_OS_IMAGE_URL='' @ final_image vars @ NL @ ''AB_FORCE=true'' @ NL @
                       ''AB_VERBOSE=1'' @ NL))"
    by (simp add: same_except_def)
  {
    assume k: "ssh_key vars = Some k" "k \<noteq> []"
    from configure_ssh_result(1) [OF s1 k] f2 f3 f4
    show "nodes h' (with_sep t @ ''ssh/authorized_keys'') = Some (File (k @ NL))"
      by (simp add: same_except_def wifi_paths_def)
  }
  {
    assume s: "wifi_ssid vars = Some s" "s \<noteq> []"
    from configure_wifi_result(1) [OF s2 s] f3 f4
    show "nodes h' (with_sep t @ ''wifi/wpa_supplicant.conf'') =
           Some (File (make_supplicant (wifi_country vars) (wifi_ssid vars) (wifi_password vars)))"
      by (simp add: same_except_def)
  }
qed

lemma find_mac: "find_data_mount mac_host = Inr ''/Volumes/boot''"
  by (simp add: find_data_mount_def get_mounts_def listdir_def mac_host_def open_r_def
      path_join_def CONFIG_FLAG_def)

lemma with_sep_boot: "with_sep ''/Volumes/boot'' = ''/Volumes/boot/''"
  by (simp add: with_sep_def)

lemma accepts_mac:
  "accepts mac_host round_trip_vars ''/Volumes/boot''"
  "accepts mac_host image_only_vars ''/Volumes/boot''"
  "accepts mac_host no_password_vars ''/Volumes/boot''"
  by (simp_all add: accepts_def dir_ok_def file_ok_def with_sep_boot mac_host_def)

lemma run_ok: "fst (main vars h) = Inr () \<Longrightarrow> main vars h = (Inr (), snd (main vars h))"
  by (cases "main vars h") simp

lemma main_progress_fst:
  "find_data_mount h = Inr t \<Longrightarrow> accepts h vars t \<Longrightarrow> fst (main vars h) = Inr ()"
  by (drule (1) main_progress) auto

lemma main_untouched:
  assumes "main vars h = (r, h')"
    and "\<And>t. find_data_mount h = Inr t \<Longrightarrow>
           q \<notin> artifact_paths vars t \<union> {with_sep t @ ''.configure_me''}"
  shows "nodes h' q = nodes h q"
proof (cases "find_data_mount h")
  case (Inl e)
  with assms(1) show ?thesis by (simp add: main_not_located)
next
  case (Inr t)
  from main_frame [OF Inr assms(1)] assms(2) [OF Inr] show ?thesis
    by (simp add: same_except_def)
qed

lemma untouched_ssh:
  "ssh_key vars = None \<or> ssh_key vars = Some [] \<Longrightarrow>
   with_sep m @ ''ssh/authorized_keys'' \<notin> artifact_paths vars t \<union> {with_sep t @ ''.configure_me''}"
  by (auto simp: artifact_paths_def ssh_paths_def wifi_paths_def dest!: arg_cong [where f = last])

lemma untouched_wifi:
  assumes "wifi_ssid vars = None \<or> wifi_ssid vars = Some []"
  shows "with_sep m @ ''wifi'' \<notin> artifact_paths vars t \<union> {with_sep t @ ''.configure_me''}"
    and "with_sep m @ ''wifi/wpa_supplicant.conf'' \<notin>
           artifact_paths vars t \<union> {with_sep t @ ''.configure_me''}"
  using assms
  by (auto simp: artifact_paths_def ssh_paths_def wifi_paths_def dest!: arg_cong [where f = last])

lemma main_Inl:
  assumes "find_data_mount h = Inr t" "main vars h = (Inl e, h')"
  shows "configure_ssh vars t h = (Inl e, h')
       \<or> (\<exists>h1. configure_ssh vars t h = (Inr (), h1) \<and> configure_wifi vars t h1 = (Inl e, h'))
       \<or> (\<exists>h1 h2. configure_ssh vars t h = (Inr (), h1) \<and> configure_wifi vars t h1 = (Inr (), h2)
             \<and> configure_ab_flasher vars t h2 = (Inl e, h'))
       \<or> (\<exists>h1 h2 h3. configure_ssh vars t h = (Inr (), h1) \<and> configure_wifi vars t h1 = (Inr (), h2)
             \<and> configure_ab_flasher vars t h2 = (Inr (), h3)
             \<and> remove (with_sep t @ ''.configure_me'') h3 = (Inl e, h'))"
proof -
  note m = assms(2) [unfolded main_located [OF assms(1)]]
  from bind_io_Inl [OF m] show ?thesis
  proof (elim disjE exE conjE)
    fix a h1
    assume s1: "configure_ssh vars t h = (Inr a, h1)"
      and r1: "bind_io (configure_wifi vars t) (\<lambda>u.
         bind_io (configure_ab_flasher vars t) (\<lambda>u.
           remove (with_sep t @ ''.configure_me''))) h1 = (Inl e, h')"
    from bind_io_Inl [OF r1] show ?thesis
    proof (elim disjE exE conjE)
      fix b h2
      assume s2: "configure_wifi vars t h1 = (Inr b, h2)"
        and r2: "bind_io (configure_ab_flasher vars t) (\<lambda>u.
           remove (with_sep t @ ''.configure_me'')) h2 = (Inl e, h')"
      from bind_io_Inl [OF r2] s1 s2 show ?thesis by auto
    qed (use s1 in auto)
  qed simp
qed

lemma main_Inl_marked:
  assumes "find_data_mount h = Inr t" "main vars h = (Inl e, h')"
  shows "nodes h' (with_sep t @ ''.configure_me'') = nodes h (with_sep t @ ''.configure_me'')"
    and "marked h' t"
proof -
  note f = main_Inl_frame [OF assms]
  with marker_not_artifact [of t vars]
  show n: "nodes h' (with_sep t @ ''.configure_me'') = nodes h (with_sep t @ ''.configure_me'')"
    by (simp add: same_except_def)
  from f have "no_read h' = no_read h" by (simp add: same_except_def)
  with n find_data_mount_marked [OF assms(1)] show "marked h' t"
    by (simp add: marked_file)
qed

lemma pair_fst_snd: "fst x = a \<Longrightarrow> x = (a, snd x)"
  by (cases x) simp


lemma second_field_eq:
  "second_field m = (if 2 \<le> length (str_split m) then Inr (str_split m ! 1) else Inl IndexError)"
  by (cases "str_split m" rule: list.exhaust [case_product list.exhaust])
     (auto simp: second_field_def split: list.splits)

lemma comprehension_second_field:
  "comprehension second_field ls =
     (if \<forall>l \<in> set ls. 2 \<le> length (str_split l) then Inr (map (\<lambda>l. str_split l ! 1) ls)
      else Inl IndexError)"
  by (induction ls) (auto simp: second_field_eq)

lemma same_except_get_mounts:
  assumes "same_except S h h'" "''/Volumes'' \<notin> S" "''/proc/mounts'' \<notin> S"
  shows "get_mounts h' = get_mounts h"
proof -
  from assms have "listdir h' ''/Volumes'' = listdir h ''/Volumes''"
    and "open_r h' ''/proc/mounts'' = open_r h ''/proc/mounts''"
    by (auto simp: listdir_def open_r_def same_except_def split: option.splits node.splits)
  then show ?thesis by (simp add: get_mounts_def cong: sum.case_cong if_cong)
qed

lemma same_except_marked:
  assumes "same_except S h h'" "with_sep m @ ''.configure_me'' \<notin> S"
  shows "marked h' m = marked h m"
  using assms by (simp add: marked_file same_except_def)

lemma last_length_neq: "(last a, length a) \<noteq> (last b, length b) \<Longrightarrow> a \<noteq> b"
  by auto

lemma host_paths_untouched:
  "''/Volumes'' \<notin> artifact_paths vars t \<union> {with_sep t @ ''.configure_me''}"
  "''/proc/mounts'' \<notin> artifact_paths vars t \<union> {with_sep t @ ''.configure_me''}"
  by (auto simp: artifact_paths_def ssh_paths_def wifi_paths_def
      dest!: arg_cong [where f = "\<lambda>s. (last s, length s)"])

lemma other_marker_untouched:
  "with_sep m @ ''.configure_me'' \<notin> artifact_paths vars t"
  by (auto simp: artifact_paths_def ssh_paths_def wifi_paths_def dest!: arg_cong [where f = last])


lemma makedirs_Inr_dir_ok: "makedirs d h = (Inr u, h') \<Longrightarrow> dir_ok h d"
  by (auto simp: makedirs_def dir_ok_def split: option.splits node.splits if_splits)

lemma open_w_Inr_conds: "open_w p h = (Inr u, h') \<Longrightarrow> nodes h p \<noteq> Some Dir \<and> p \<notin> no_write h"
  by (auto simp: open_w_def split: option.splits node.splits if_splits)

lemma f_write_Inr_conds: "f_write p s h = (Inr u, h') \<Longrightarrow> p \<notin> full h"
  by (auto simp: f_write_def split: option.splits node.splits if_splits)

lemma remove_Inr_conds: "remove p h = (Inr u, h') \<Longrightarrow> p \<notin> no_write h"
  by (auto simp: remove_def split: option.splits node.splits if_splits)

lemma write_file_Inr_file_ok:
  assumes "bind_io (open_w p) (\<lambda>u. f_write p s) h = (Inr (), h')"
  shows "file_ok h p"
proof -
  from bind_io_Inr [OF assms] obtain a h1
    where o: "open_w p h = (Inr a, h1)" and w: "f_write p s h1 = (Inr (), h')" by blast
  from frame_open_w [OF o] f_write_Inr_conds [OF w] have "p \<notin> full h"
    by (simp add: same_except_def)
  with open_w_Inr_conds [OF o] show ?thesis by (simp add: file_ok_def)
qed

lemma dir_file_Inr_conds:
  assumes "bind_io (makedirs d) (\<lambda>u. bind_io (open_w p) (\<lambda>u. f_write p s)) h = (Inr (), h')"
    and "d \<noteq> p"
  shows "dir_ok h d \<and> file_ok h p"
proof -
  from bind_io_Inr [OF assms(1)] obtain a h1
    where m: "makedirs d h = (Inr a, h1)"
      and w: "bind_io (open_w p) (\<lambda>u. f_write p s) h1 = (Inr (), h')" by blast
  from same_except_file_ok [OF frame_makedirs [OF m], of p] assms(2) write_file_Inr_file_ok [OF w]
  have "file_ok h p" by simp
  with makedirs_Inr_dir_ok [OF m] show ?thesis by simp
qed

lemma configure_ab_flasher_Inr_file_ok:
  assumes "configure_ab_flasher vars t h = (Inr (), h')"
  shows "file_ok h (with_sep t @ ''ab-flasher.env'')"
proof -
  let ?p = "with_sep t @ ''ab-flasher.env''"
  from assms [unfolded configure_ab_flasher_def paths]
  obtain a h1 where o: "open_w ?p h = (Inr a, h1)"
    and r1: "bind_io (f_write ?p (''AB_OS_IMAGE_URL='' @ final_image vars @ NL)) (\<lambda>u.
               bind_io (f_write ?p (''AB_FORCE=true'' @ NL)) (\<lambda>u.
                 f_write ?p (''AB_VERBOSE=1'' @ NL))) h1 = (Inr (), h')"
    by (blast dest: bind_io_Inr)
  from r1 obtain b h2 where w1: "f_write ?p (''AB_OS_IMAGE_URL='' @ final_image vars @ NL) h1 = (Inr b, h2)"
    by (blast dest: bind_io_Inr)
  from frame_open_w [OF o] f_write_Inr_conds [OF w1] have "?p \<notin> full h"
    by (simp add: same_except_def)
  with open_w_Inr_conds [OF o] show ?thesis by (simp add: file_ok_def)
qed

lemma main_Inr_accepts:
  assumes "find_data_mount h = Inr t" "main vars h = (Inr (), h')"
  shows "accepts h vars t"
proof -
  from main_Inr [OF assms] obtain h1 h2 h3
    where s1: "configure_ssh vars t h = (Inr (), h1)"
      and s2: "configure_wifi vars t h1 = (Inr (), h2)"
      and s3: "configure_ab_flasher vars t h2 = (Inr (), h3)"
      and s4: "remove (with_sep t @ ''.configure_me'') h3 = (Inr (), h')" by blast
  note f1 = configure_ssh_frame [OF s1, folded ssh_paths_def]
  note f2 = configure_wifi_frame [OF s2, folded wifi_paths_def]
  note f3 = configure_ab_flasher_frame [OF s3]
  have a: "ssh_key vars = None \<or> ssh_key vars = Some [] \<or>
         dir_ok h (with_sep t @ ''ssh'') \<and> file_ok h (with_sep t @ ''ssh/authorized_keys'')"
  proof (cases "ssh_key vars = None \<or> ssh_key vars = Some []")
    case False
    then obtain k where k: "ssh_key vars = Some k" "k \<noteq> []" by auto
    from s1 [unfolded configure_ssh_run [OF k]] show ?thesis
      by (auto dest: dir_file_Inr_conds)
  qed blast
  have b: "wifi_ssid vars = None \<or> wifi_ssid vars = Some [] \<or>
         dir_ok h (with_sep t @ ''wifi'') \<and> file_ok h (with_sep t @ ''wifi/wpa_supplicant.conf'')"
  proof (cases "wifi_ssid vars = None \<or> wifi_ssid vars = Some []")
    case False
    then obtain s where s: "wifi_ssid vars = Some s" "s \<noteq> []" by auto
    from s2 [unfolded configure_wifi_run [OF s]]
    have "dir_ok h1 (with_sep t @ ''wifi'') \<and> file_ok h1 (with_sep t @ ''wifi/wpa_supplicant.conf'')"
      by (auto dest: dir_file_Inr_conds)
    then show ?thesis
      by (simp add: same_except_dir_ok [OF f1] same_except_file_ok [OF f1] ssh_paths_def)
  qed blast
  from configure_ab_flasher_Inr_file_ok [OF s3]
  have c: "file_ok h (with_sep t @ ''ab-flasher.env'')"
    by (simp add: same_except_file_ok [OF f1] same_except_file_ok [OF f2] ssh_paths_def wifi_paths_def)
  from remove_Inr_conds [OF s4] f1 f2 f3
  have d: "with_sep t @ ''.configure_me'' \<notin> no_write h" by (simp add: same_except_def)
  from a b c d show ?thesis by (simp add: accepts_def)
qed

lemma main_succeeds_iff:
  assumes "find_data_mount h = Inr t"
  shows "(fst (main vars h) = Inr ()) = accepts h vars t"
  using main_Inr_accepts [OF assms pair_fst_snd] main_progress_fst [OF assms] by blast

lemma accepts_password: "accepts h (vars\<lparr>wifi_password := pw\<rparr>) t = accepts h vars t"
  by (simp add: accepts_def)

lemma universal_newlines_id: "CHR 0x0D \<notin> set s \<Longrightarrow> universal_newlines s = s"
  by (induction s rule: universal_newlines.induct) auto

lemma lines_from_line:
  "CHR 0x0A \<notin> set s \<Longrightarrow>
   lines_from cur (s @ CHR 0x0A # rest) = (cur @ s @ [CHR 0x0A]) # lines_from [] rest"
  by (induction s arbitrary: cur) auto

lemma readlines_env:
  assumes "CHR 0x0A \<notin> set v" "CHR 0x0D \<notin> set v"
  shows "readlines (''AB_OS_IMAGE_URL='' @ v @ NL @ ''AB_FORCE=true'' @ NL @ ''AB_VERBOSE=1'' @ NL) =
           [''AB_OS_IMAGE_URL='' @ v @ NL, ''AB_FORCE=true'' @ NL, ''AB_VERBOSE=1'' @ NL]"
proof -
  let ?c = "''AB_OS_IMAGE_URL='' @ v @ NL @ ''AB_FORCE=true'' @ NL @ ''AB_VERBOSE=1'' @ NL"
  from assms(2) have u: "universal_newlines ?c = ?c"
    by (intro universal_newlines_id) simp
  from assms(1) have 1: "CHR 0x0A \<notin> set (''AB_OS_IMAGE_URL='' @ v)" by simp
  have "lines_from [] ?c =
          ([] @ (''AB_OS_IMAGE_URL='' @ v) @ NL) # lines_from [] (''AB_FORCE=true'' @ NL @ ''AB_VERBOSE=1'' @ NL)"
    using lines_from_line [OF 1, of "[]" "''AB_FORCE=true'' @ NL @ ''AB_VERBOSE=1'' @ NL"] by simp
  then show ?thesis unfolding readlines_def u by simp
qed

lemma marker_path_plain:
  "m \<noteq> [] \<Longrightarrow> last m \<noteq> CHR ''/'' \<Longrightarrow> path_join m CONFIG_FLAG = m @ ''/.configure_me''"
  by (simp add: path_join_def CONFIG_FLAG_def)

section \<open>The volume locator\<close>

lemma scan_mounts_first:
  "(\<forall>x \<in> set pre. \<not> marked h x) \<Longrightarrow> marked h m \<Longrightarrow> scan_mounts h (pre @ m # rest) = Inr m"
  by (induction pre) (auto simp: marked_def split: sum.splits)

lemma scan_mounts_none:
  "(scan_mounts h ms = Inl e) = (e = TargetNotFound \<and> (\<forall>m \<in> set ms. \<not> marked h m))"
  by (induction ms) (auto simp: marked_def split: sum.splits)

text \<open>
  C1. Given the list of mounts, \<^verbatim>\<open>find_data_mount\<close> returns the first mount whose marker
  file (the mount joined with \<^verbatim>\<open>.configure_me\<close>) can be opened for reading, whatever
  follows it in the list; a mount whose marker cannot be opened, for whatever reason, is
  passed over; and it fails with \<open>TargetNotFound\<close> exactly when no mount of the list has
  a readable marker. For a mount that is not empty and does not end in a slash, the marker
  file is at the mount followed by \<^verbatim>\<open>/.configure_me\<close>.
\<close>

theorem find_data_mount_first_marked:
  assumes "get_mounts h = Inr mounts"
  shows "(\<forall>pre m rest. mounts = pre @ m # rest \<and> (\<forall>x \<in> set pre. \<not> marked h x) \<and> marked h m
            \<longrightarrow> find_data_mount h = Inr m)
         \<and> (find_data_mount h = Inl TargetNotFound \<longleftrightarrow> (\<forall>m \<in> set mounts. \<not> marked h m))
         \<and> (\<forall>m. find_data_mount h = Inr m \<longrightarrow> m \<in> set mounts \<and> marked h m)
         \<and> (\<forall>m. m \<noteq> [] \<and> last m \<noteq> CHR ''/'' \<longrightarrow>
               marked h m = (\<not> isl (open_r h (m @ ''/.configure_me''))))"
proof (intro conjI allI impI)
  fix pre m rest
  assume "mounts = pre @ m # rest \<and> (\<forall>x \<in> set pre. \<not> marked h x) \<and> marked h m"
  then show "find_data_mount h = Inr m"
    using assms by (simp add: find_data_mount_def scan_mounts_first)
next
  show "find_data_mount h = Inl TargetNotFound \<longleftrightarrow> (\<forall>m \<in> set mounts. \<not> marked h m)"
    using assms by (simp add: find_data_mount_def scan_mounts_none)
next
  fix m
  assume "find_data_mount h = Inr m"
  then have "scan_mounts h mounts = Inr m"
    using assms by (simp add: find_data_mount_def)
  then show "m \<in> set mounts" and "marked h m"
    by (auto dest: scan_mounts_marked)
next
  fix m :: string
  assume "m \<noteq> [] \<and> last m \<noteq> CHR ''/''"
  then show "marked h m = (\<not> isl (open_r h (m @ ''/.configure_me'')))"
    by (simp add: marked_def marker_path_plain)
qed

theorem find_data_mount_first_marked_witness:
  "get_mounts mac_host = Inr [''/Volumes/Macintosh HD'', ''/Volumes/boot'']
   \<and> \<not> marked mac_host ''/Volumes/Macintosh HD'' \<and> marked mac_host ''/Volumes/boot''
   \<and> find_data_mount mac_host = Inr ''/Volumes/boot''"
proof -
  have g: "get_mounts mac_host = Inr [''/Volumes/Macintosh HD'', ''/Volumes/boot'']"
    by (simp add: get_mounts_def listdir_def mac_host_def)
  have m: "\<not> marked mac_host ''/Volumes/Macintosh HD''" "marked mac_host ''/Volumes/boot''"
    by (simp_all add: marked_def open_r_def mac_host_def path_join_def CONFIG_FLAG_def)
  have "find_data_mount mac_host = Inr ''/Volumes/boot''"
    using find_data_mount_first_marked [OF g, THEN conjunct1, rule_format,
        of "[''/Volumes/Macintosh HD'']" "''/Volumes/boot''" "[]"] m
    by simp
  then show ?thesis using g m by simp
qed

section \<open>The WiFi artifact\<close>

text \<open>
  C2, as the specification states it: the WiFi artifact is produced only when both
  \<^verbatim>\<open>wifi_ssid\<close> and \<^verbatim>\<open>wifi_password\<close> are present. The run below has an ssid and no
  password, and writes \<^verbatim>\<open>wifi/wpa_supplicant.conf\<close> all the same: \<^verbatim>\<open>main\<close> tests
  \<^verbatim>\<open>vars.wifi_ssid\<close> alone.
\<close>

theorem wifi_needs_both_counterexample:
  "wifi_ssid no_password_vars = Some ''Home'' \<and> wifi_password no_password_vars = None
   \<and> find_data_mount mac_host = Inr ''/Volumes/boot''
   \<and> nodes mac_host ''/Volumes/boot/wifi/wpa_supplicant.conf'' = None
   \<and> fst (main no_password_vars mac_host) = Inr ()
   \<and> nodes (snd (main no_password_vars mac_host)) ''/Volumes/boot/wifi/wpa_supplicant.conf'' =
       Some (File (''ctrl_interface=DIR=/var/run/wpa_supplicant GROUP=netdev'' @ NL @
                   ''update_config=1'' @ NL @ ''country=NZ'' @ NL @ NL @
                   ''network={'' @ NL @ '' ssid=\"Home\"'' @ NL @ '' psk=\"None\"'' @ NL @
                   ''}'' @ NL))"
  by (simp add: mac_host_def no_password_vars_def run_defs)


text \<open>
  C2, amended: the WiFi artifact is produced only when \<^verbatim>\<open>wifi_ssid\<close> is present and not
  empty (a run that changes the file at \<^verbatim>\<open>wifi/wpa_supplicant.conf\<close> has such an ssid, so
  an absent ssid suppresses it whatever the password is); and with such an ssid a successful
  run writes it, filled from the country, the ssid and the password, whether or not a
  password is set.
\<close>

theorem wifi_needs_ssid_only:
  assumes "find_data_mount h = Inr t" and "main vars h = (r, h')"
  shows "(nodes h' (path_join (path_join t ''wifi'') ''wpa_supplicant.conf'') \<noteq>
            nodes h (path_join (path_join t ''wifi'') ''wpa_supplicant.conf'')
          \<longrightarrow> (\<exists>s. wifi_ssid vars = Some s \<and> s \<noteq> []))
       \<and> (\<forall>s. r = Inr () \<and> wifi_ssid vars = Some s \<and> s \<noteq> [] \<longrightarrow>
            nodes h' (path_join (path_join t ''wifi'') ''wpa_supplicant.conf'') =
              Some (File (make_supplicant (wifi_country vars) (Some s) (wifi_password vars))))"
proof (intro conjI impI allI)
  assume d: "nodes h' (path_join (path_join t ''wifi'') ''wpa_supplicant.conf'') \<noteq>
            nodes h (path_join (path_join t ''wifi'') ''wpa_supplicant.conf'')"
  show "\<exists>s. wifi_ssid vars = Some s \<and> s \<noteq> []"
  proof (rule ccontr)
    assume "\<not> (\<exists>s. wifi_ssid vars = Some s \<and> s \<noteq> [])"
    then have "wifi_ssid vars = None \<or> wifi_ssid vars = Some []"
      by (cases "wifi_ssid vars") auto
    from main_untouched [OF assms(2) untouched_wifi(2) [OF this]] d show False
      by (simp add: paths)
  qed
next
  fix s
  assume "r = Inr () \<and> wifi_ssid vars = Some s \<and> s \<noteq> []"
  with assms main_results(4) [of h t vars h' s]
  show "nodes h' (path_join (path_join t ''wifi'') ''wpa_supplicant.conf'') =
              Some (File (make_supplicant (wifi_country vars) (Some s) (wifi_password vars)))"
    by (simp add: paths)
qed

theorem wifi_needs_ssid_only_witness:
  "find_data_mount mac_host = Inr ''/Volumes/boot''
   \<and> fst (main no_password_vars mac_host) = Inr ()
   \<and> wifi_ssid no_password_vars = Some ''Home''
   \<and> nodes (snd (main no_password_vars mac_host)) ''/Volumes/boot/wifi/wpa_supplicant.conf'' =
       Some (File (make_supplicant ''NZ'' (Some ''Home'') None))
   \<and> nodes (snd (main no_password_vars mac_host)) ''/Volumes/boot/wifi/wpa_supplicant.conf'' \<noteq>
       nodes mac_host ''/Volumes/boot/wifi/wpa_supplicant.conf''"
proof -
  have f: "find_data_mount mac_host = Inr ''/Volumes/boot''"
    by (simp add: mac_host_def run_defs)
  have r: "fst (main no_password_vars mac_host) = Inr ()"
    by (simp add: mac_host_def no_password_vars_def run_defs)
  have v: "wifi_ssid no_password_vars = Some ''Home''" "wifi_country no_password_vars = ''NZ''"
    "wifi_password no_password_vars = None"
    by (simp_all add: no_password_vars_def)
  have n: "nodes mac_host ''/Volumes/boot/wifi/wpa_supplicant.conf'' = None"
    by (simp add: mac_host_def)
  from wifi_needs_ssid_only [OF f pair_fst_snd [OF r], THEN conjunct2] v
  have "nodes (snd (main no_password_vars mac_host))
          (path_join (path_join ''/Volumes/boot'' ''wifi'') ''wpa_supplicant.conf'') =
        Some (File (make_supplicant ''NZ'' (Some ''Home'') None))"
    by auto
  then have "nodes (snd (main no_password_vars mac_host)) ''/Volumes/boot/wifi/wpa_supplicant.conf'' =
       Some (File (make_supplicant ''NZ'' (Some ''Home'') None))"
    by (simp add: path_join_def)
  with f r v n show ?thesis by simp
qed


section \<open>The conditional writes\<close>

text \<open>
  C3. Whatever the outcome of the run: when \<^verbatim>\<open>ssh_key\<close> is absent or empty, no
  \<^verbatim>\<open>ssh/authorized_keys\<close> is created (the node at that path, under any mount, is what it
  was); when \<^verbatim>\<open>wifi_ssid\<close> is absent or empty, neither \<^verbatim>\<open>wifi/wpa_supplicant.conf\<close> nor
  the directory \<^verbatim>\<open>wifi\<close> is created, whatever \<^verbatim>\<open>wifi_password\<close> is; and when
  \<^verbatim>\<open>ssh_key\<close> is not empty, a successful run leaves \<^verbatim>\<open>ssh/authorized_keys\<close> on the
  located volume holding the key and a newline.
\<close>

theorem conditional_write_law:
  assumes "main vars h = (r, h')"
  shows "(ssh_key vars = None \<or> ssh_key vars = Some [] \<longrightarrow>
            (\<forall>m. nodes h' (path_join (path_join m ''ssh'') ''authorized_keys'') =
                  nodes h (path_join (path_join m ''ssh'') ''authorized_keys'')))
       \<and> (wifi_ssid vars = None \<or> wifi_ssid vars = Some [] \<longrightarrow>
            (\<forall>m. nodes h' (path_join (path_join m ''wifi'') ''wpa_supplicant.conf'') =
                  nodes h (path_join (path_join m ''wifi'') ''wpa_supplicant.conf'')
                \<and> nodes h' (path_join m ''wifi'') = nodes h (path_join m ''wifi'')))
       \<and> (\<forall>t k. find_data_mount h = Inr t \<and> r = Inr () \<and> ssh_key vars = Some k \<and> k \<noteq> [] \<longrightarrow>
            nodes h' (path_join (path_join t ''ssh'') ''authorized_keys'') = Some (File (k @ NL)))"
proof (intro conjI impI allI)
  fix m
  assume "ssh_key vars = None \<or> ssh_key vars = Some []"
  then show "nodes h' (path_join (path_join m ''ssh'') ''authorized_keys'') =
             nodes h (path_join (path_join m ''ssh'') ''authorized_keys'')"
    unfolding paths by (intro main_untouched [OF assms] untouched_ssh)
next
  fix m
  assume w: "wifi_ssid vars = None \<or> wifi_ssid vars = Some []"
  then show "nodes h' (path_join (path_join m ''wifi'') ''wpa_supplicant.conf'') =
             nodes h (path_join (path_join m ''wifi'') ''wpa_supplicant.conf'')"
    unfolding paths by (intro main_untouched [OF assms] untouched_wifi)
  from w show "nodes h' (path_join m ''wifi'') = nodes h (path_join m ''wifi'')"
    unfolding paths by (intro main_untouched [OF assms] untouched_wifi)
next
  fix t k
  assume "find_data_mount h = Inr t \<and> r = Inr () \<and> ssh_key vars = Some k \<and> k \<noteq> []"
  with assms main_results(3) [of h t vars h' k]
  show "nodes h' (path_join (path_join t ''ssh'') ''authorized_keys'') = Some (File (k @ NL))"
    by (simp add: paths)
qed

theorem conditional_write_law_witness:
  "ssh_key image_only_vars = None \<and> wifi_ssid image_only_vars = None
   \<and> nodes (snd (main image_only_vars mac_host)) ''/Volumes/boot/ssh/authorized_keys'' = None
   \<and> nodes (snd (main image_only_vars mac_host)) ''/Volumes/boot/wifi/wpa_supplicant.conf'' = None
   \<and> nodes (snd (main image_only_vars mac_host)) ''/Volumes/boot/wifi'' = None
   \<and> fst (main round_trip_vars mac_host) = Inr ()
   \<and> nodes (snd (main round_trip_vars mac_host)) ''/Volumes/boot/ssh/authorized_keys'' =
       Some (File (''ssh-ed25519 AAAA... user@host'' @ NL))"
proof -
  have f1: "find_data_mount mac_host = Inr ''/Volumes/boot''"
    by (simp add: mac_host_def run_defs)
  have r1: "fst (main round_trip_vars mac_host) = Inr ()"
    by (simp add: mac_host_def round_trip_vars_def run_defs)
  have v: "ssh_key image_only_vars = None" "wifi_ssid image_only_vars = None"
    "ssh_key round_trip_vars = Some ''ssh-ed25519 AAAA... user@host''"
    by (simp_all add: image_only_vars_def round_trip_vars_def)
  have n: "nodes mac_host ''/Volumes/boot/ssh/authorized_keys'' = None"
    "nodes mac_host ''/Volumes/boot/wifi/wpa_supplicant.conf'' = None"
    "nodes mac_host ''/Volumes/boot/wifi'' = None"
    by (simp_all add: mac_host_def)
  note a = conditional_write_law [OF prod.collapse [symmetric], of image_only_vars mac_host]
  from a [THEN conjunct1] v(1)
  have "nodes (snd (main image_only_vars mac_host))
          (path_join (path_join ''/Volumes/boot'' ''ssh'') ''authorized_keys'') =
        nodes mac_host (path_join (path_join ''/Volumes/boot'' ''ssh'') ''authorized_keys'')"
    by blast
  then have c1: "nodes (snd (main image_only_vars mac_host)) ''/Volumes/boot/ssh/authorized_keys'' = None"
    using n by (simp add: path_join_def)
  from a [THEN conjunct2, THEN conjunct1] v(2)
  have "nodes (snd (main image_only_vars mac_host))
          (path_join (path_join ''/Volumes/boot'' ''wifi'') ''wpa_supplicant.conf'') =
        nodes mac_host (path_join (path_join ''/Volumes/boot'' ''wifi'') ''wpa_supplicant.conf'')
        \<and> nodes (snd (main image_only_vars mac_host)) (path_join ''/Volumes/boot'' ''wifi'') =
          nodes mac_host (path_join ''/Volumes/boot'' ''wifi'')"
    by blast
  then have c2: "nodes (snd (main image_only_vars mac_host)) ''/Volumes/boot/wifi/wpa_supplicant.conf'' = None"
    "nodes (snd (main image_only_vars mac_host)) ''/Volumes/boot/wifi'' = None"
    using n by (simp_all add: path_join_def)
  from conditional_write_law [OF pair_fst_snd [OF r1], THEN conjunct2, THEN conjunct2] f1 v(3)
  have "nodes (snd (main round_trip_vars mac_host))
          (path_join (path_join ''/Volumes/boot'' ''ssh'') ''authorized_keys'') =
        Some (File (''ssh-ed25519 AAAA... user@host'' @ NL))"
    by auto
  then have c3: "nodes (snd (main round_trip_vars mac_host)) ''/Volumes/boot/ssh/authorized_keys'' =
       Some (File (''ssh-ed25519 AAAA... user@host'' @ NL))"
    by (simp add: path_join_def)
  from v c1 c2 r1 c3 show ?thesis by simp
qed


section \<open>The marker\<close>

text \<open>
  C4. On the located volume, a run that succeeds has gone through the three writing blocks
  in order, each without error, and only then removed the marker, which is gone afterwards.
  A run that fails has stopped at the first block (or at the removal) that raised, with
  that error and the host as that block left it; the marker file is then what it was, and
  can still be opened for reading.
\<close>

theorem marker_removed_last:
  assumes "find_data_mount h = Inr t" and "main vars h = (r, h')"
  shows "(r = Inr () \<longrightarrow>
            (\<exists>h1 h2 h3. configure_ssh vars t h = (Inr (), h1)
               \<and> configure_wifi vars t h1 = (Inr (), h2)
               \<and> configure_ab_flasher vars t h2 = (Inr (), h3)
               \<and> remove (path_join t CONFIG_FLAG) h3 = (Inr (), h'))
            \<and> nodes h' (path_join t CONFIG_FLAG) = None)
       \<and> (\<forall>e. r = Inl e \<longrightarrow>
            (configure_ssh vars t h = (Inl e, h')
             \<or> (\<exists>h1. configure_ssh vars t h = (Inr (), h1)
                   \<and> configure_wifi vars t h1 = (Inl e, h'))
             \<or> (\<exists>h1 h2. configure_ssh vars t h = (Inr (), h1)
                   \<and> configure_wifi vars t h1 = (Inr (), h2)
                   \<and> configure_ab_flasher vars t h2 = (Inl e, h'))
             \<or> (\<exists>h1 h2 h3. configure_ssh vars t h = (Inr (), h1)
                   \<and> configure_wifi vars t h1 = (Inr (), h2)
                   \<and> configure_ab_flasher vars t h2 = (Inr (), h3)
                   \<and> remove (path_join t CONFIG_FLAG) h3 = (Inl e, h')))
            \<and> nodes h' (path_join t CONFIG_FLAG) = nodes h (path_join t CONFIG_FLAG)
            \<and> marked h' t)"
proof (intro conjI impI allI)
  assume r: "r = Inr ()"
  with assms main_Inr [of h t vars h']
  show "\<exists>h1 h2 h3. configure_ssh vars t h = (Inr (), h1)
               \<and> configure_wifi vars t h1 = (Inr (), h2)
               \<and> configure_ab_flasher vars t h2 = (Inr (), h3)
               \<and> remove (path_join t CONFIG_FLAG) h3 = (Inr (), h')"
    by (simp add: paths)
  from r assms main_results(1) [of h t vars h']
  show "nodes h' (path_join t CONFIG_FLAG) = None" by (simp add: paths)
next
  fix e assume r: "r = Inl e"
  with assms main_Inl [of h t vars e h']
  show "configure_ssh vars t h = (Inl e, h')
             \<or> (\<exists>h1. configure_ssh vars t h = (Inr (), h1)
                   \<and> configure_wifi vars t h1 = (Inl e, h'))
             \<or> (\<exists>h1 h2. configure_ssh vars t h = (Inr (), h1)
                   \<and> configure_wifi vars t h1 = (Inr (), h2)
                   \<and> configure_ab_flasher vars t h2 = (Inl e, h'))
             \<or> (\<exists>h1 h2 h3. configure_ssh vars t h = (Inr (), h1)
                   \<and> configure_wifi vars t h1 = (Inr (), h2)
                   \<and> configure_ab_flasher vars t h2 = (Inr (), h3)
                   \<and> remove (path_join t CONFIG_FLAG) h3 = (Inl e, h'))"
    by (simp add: paths)
  from r assms main_Inl_marked [of h t vars e h']
  show "nodes h' (path_join t CONFIG_FLAG) = nodes h (path_join t CONFIG_FLAG)" and "marked h' t"
    by (simp_all add: paths)
qed

theorem marker_removed_last_witness:
  "find_data_mount mac_host = Inr ''/Volumes/boot''
   \<and> fst (main round_trip_vars mac_host) = Inr ()
   \<and> nodes (snd (main round_trip_vars mac_host)) ''/Volumes/boot/.configure_me'' = None
   \<and> find_data_mount locked_host = Inr ''/Volumes/boot''
   \<and> fst (main round_trip_vars locked_host) = Inl PermissionError
   \<and> nodes (snd (main round_trip_vars locked_host)) ''/Volumes/boot/.configure_me'' = Some (File [])
   \<and> marked (snd (main round_trip_vars locked_host)) ''/Volumes/boot''"
proof -
  have f1: "find_data_mount mac_host = Inr ''/Volumes/boot''"
    by (simp add: mac_host_def run_defs)
  have r1: "fst (main round_trip_vars mac_host) = Inr ()"
    by (simp add: mac_host_def round_trip_vars_def run_defs)
  have f2: "find_data_mount locked_host = Inr ''/Volumes/boot''"
    by (simp add: locked_host_def mac_host_def run_defs)
  have r2: "fst (main round_trip_vars locked_host) = Inl PermissionError"
    by (simp add: locked_host_def mac_host_def round_trip_vars_def run_defs)
  have n: "nodes locked_host ''/Volumes/boot/.configure_me'' = Some (File [])"
    by (simp add: locked_host_def mac_host_def)
  from marker_removed_last [OF f1 pair_fst_snd [OF r1]]
  have "nodes (snd (main round_trip_vars mac_host)) ''/Volumes/boot/.configure_me'' = None"
    by (simp add: path_join_def CONFIG_FLAG_def)
  moreover from marker_removed_last [OF f2 pair_fst_snd [OF r2]] n
  have "nodes (snd (main round_trip_vars locked_host)) ''/Volumes/boot/.configure_me'' = Some (File [])
        \<and> marked (snd (main round_trip_vars locked_host)) ''/Volumes/boot''"
    by (simp add: path_join_def CONFIG_FLAG_def)
  ultimately show ?thesis using f1 r1 f2 r2 by simp
qed


section \<open>The mount enumerator\<close>

text \<open>
  C5, as the specification states it: when the volumes directory is not there or cannot be
  listed, and the mount table exists, \<^verbatim>\<open>get_mounts\<close> returns the second field of every
  line. On the first host below \<^verbatim>\<open>/Volumes\<close> exists and may not be listed, and the mount
  table is there: the \<^verbatim>\<open>PermissionError\<close> of \<^verbatim>\<open>listdir\<close> ends the call, since the \<^verbatim>\<open>try\<close>
  catches \<^verbatim>\<open>FileNotFoundError\<close> only. On the second the mount table has a blank line,
  which has no second field: the call ends with \<^verbatim>\<open>IndexError\<close>.
\<close>

theorem get_mounts_policy_counterexample:
  "listdir unlistable_host ''/Volumes'' = Inl PermissionError
   \<and> open_r unlistable_host ''/proc/mounts'' =
       Inr (''proc /proc proc rw 0 0'' @ NL @ ''/dev/sda1 / ext4 rw 0 0'' @ NL @
            ''/dev/sdb2 /media/data ext4 rw 0 0'' @ NL)
   \<and> get_mounts unlistable_host = Inl PermissionError
   \<and> listdir blank_line_host ''/Volumes'' = Inl FileNotFoundError
   \<and> open_r blank_line_host ''/proc/mounts'' = Inr (''/dev/sdb2 /media/data ext4 rw 0 0'' @ NL @ NL)
   \<and> get_mounts blank_line_host = Inl IndexError"
  by (simp add: unlistable_host_def blank_line_host_def linux_host_def get_mounts_def listdir_def
      open_r_def readlines_def second_field_def str_split_def is_space_def)


text \<open>
  C5, amended: the first applicable wins. When \<^verbatim>\<open>/Volumes\<close> can be listed, \<^verbatim>\<open>get_mounts\<close>
  returns one path \<^verbatim>\<open>/Volumes/<entry>\<close> for each entry, whatever the mount table is. When
  \<^verbatim>\<open>/Volumes\<close> does not exist and \<^verbatim>\<open>/proc/mounts\<close> can be opened, it returns the second
  white-space separated field of every line, provided every line has two fields. When
  neither exists it fails with \<open>UnsupportedPlatform\<close>. Any other error of the listing or
  of the opening is passed on as it is. \<^verbatim>\<open>get_mounts\<close> only reads: it takes the host and
  returns no host.
\<close>

theorem get_mounts_policy:
  "(\<forall>ds. listdir h ''/Volumes'' = Inr ds \<longrightarrow>
      get_mounts h = Inr (map (\<lambda>d. ''/Volumes/'' @ d) ds))
   \<and> (\<forall>content. listdir h ''/Volumes'' = Inl FileNotFoundError
         \<and> open_r h ''/proc/mounts'' = Inr content
         \<and> (\<forall>l \<in> set (readlines content). 2 \<le> length (str_split l)) \<longrightarrow>
      get_mounts h = Inr (map (\<lambda>l. str_split l ! 1) (readlines content)))
   \<and> (listdir h ''/Volumes'' = Inl FileNotFoundError
         \<and> open_r h ''/proc/mounts'' = Inl FileNotFoundError \<longrightarrow>
      get_mounts h = Inl UnsupportedPlatform)
   \<and> (\<forall>e. listdir h ''/Volumes'' = Inl e \<and> e \<noteq> FileNotFoundError \<longrightarrow> get_mounts h = Inl e)
   \<and> (\<forall>e. listdir h ''/Volumes'' = Inl FileNotFoundError
         \<and> open_r h ''/proc/mounts'' = Inl e \<and> e \<noteq> FileNotFoundError \<longrightarrow>
      get_mounts h = Inl e)"
  by (auto simp: get_mounts_def comprehension_second_field)

theorem get_mounts_policy_witness:
  "listdir mac_host ''/Volumes'' = Inr [''Macintosh HD'', ''boot'']
   \<and> get_mounts mac_host = Inr [''/Volumes/Macintosh HD'', ''/Volumes/boot'']
   \<and> listdir linux_host ''/Volumes'' = Inl FileNotFoundError
   \<and> get_mounts linux_host = Inr [''/proc'', ''/'', ''/media/data'']
   \<and> open_r bare_host ''/proc/mounts'' = Inl FileNotFoundError
   \<and> get_mounts bare_host = Inl UnsupportedPlatform
   \<and> get_mounts unlistable_host = Inl PermissionError"
proof -
  have l1: "listdir mac_host ''/Volumes'' = Inr [''Macintosh HD'', ''boot'']"
    by (simp add: listdir_def mac_host_def)
  have l2: "listdir linux_host ''/Volumes'' = Inl FileNotFoundError"
    by (simp add: listdir_def linux_host_def)
  have o2: "open_r linux_host ''/proc/mounts'' =
      Inr (''proc /proc proc rw 0 0'' @ NL @ ''/dev/sda1 / ext4 rw 0 0'' @ NL @
                       ''/dev/sdb2 /media/data ext4 rw 0 0'' @ NL)"
    by (simp add: open_r_def linux_host_def)
  have l3: "listdir bare_host ''/Volumes'' = Inl FileNotFoundError"
    and o3: "open_r bare_host ''/proc/mounts'' = Inl FileNotFoundError"
    by (simp_all add: listdir_def open_r_def bare_host_def)
  have l4: "listdir unlistable_host ''/Volumes'' = Inl PermissionError"
    by (simp add: listdir_def unlistable_host_def linux_host_def)
  from get_mounts_policy [of mac_host, THEN conjunct1] l1
  have g1: "get_mounts mac_host = Inr [''/Volumes/Macintosh HD'', ''/Volumes/boot'']" by simp
  from get_mounts_policy [of linux_host, THEN conjunct2, THEN conjunct1] l2 o2
  have g2: "get_mounts linux_host = Inr [''/proc'', ''/'', ''/media/data'']"
    by (simp add: readlines_def str_split_def is_space_def)
  from get_mounts_policy [of bare_host, THEN conjunct2, THEN conjunct2, THEN conjunct1] l3 o3
  have g3: "get_mounts bare_host = Inl UnsupportedPlatform" by simp
  from get_mounts_policy [of unlistable_host, THEN conjunct2, THEN conjunct2, THEN conjunct2,
      THEN conjunct1] l4
  have g4: "get_mounts unlistable_host = Inl PermissionError" by simp
  from l1 g1 l2 g2 o3 g3 g4 show ?thesis by simp
qed


section \<open>The update agent's file\<close>

text \<open>
  C6. After every successful run, whatever the SSH and WiFi settings are, the file
  \<^verbatim>\<open>ab-flasher.env\<close> of the located volume holds exactly the three lines
  \<^verbatim>\<open>AB_OS_IMAGE_URL=<final_image>\<close>, \<^verbatim>\<open>AB_FORCE=true\<close> and \<^verbatim>\<open>AB_VERBOSE=1\<close>, each ended by
  a newline. Read back with \<^verbatim>\<open>readlines\<close>, this text is those three lines and no other,
  when \<^verbatim>\<open>final_image\<close> itself holds no line break.
\<close>

theorem ab_flasher_env_on_success:
  assumes "find_data_mount h = Inr t" and "main vars h = (Inr (), h')"
  shows "nodes h' (path_join t ''ab-flasher.env'') =
           Some (File (''AB_OS_IMAGE_URL='' @ final_image vars @ NL @
                       ''AB_FORCE=true'' @ NL @ ''AB_VERBOSE=1'' @ NL))
       \<and> (CHR 0x0A \<notin> set (final_image vars) \<and> CHR 0x0D \<notin> set (final_image vars) \<longrightarrow>
            readlines (''AB_OS_IMAGE_URL='' @ final_image vars @ NL @
                       ''AB_FORCE=true'' @ NL @ ''AB_VERBOSE=1'' @ NL) =
              [''AB_OS_IMAGE_URL='' @ final_image vars @ NL, ''AB_FORCE=true'' @ NL,
               ''AB_VERBOSE=1'' @ NL])"
  using main_results(2) [OF assms] readlines_env [of "final_image vars"] by (simp add: paths)

theorem ab_flasher_env_on_success_witness:
  "find_data_mount mac_host = Inr ''/Volumes/boot''
   \<and> fst (main image_only_vars mac_host) = Inr ()
   \<and> nodes (snd (main image_only_vars mac_host)) ''/Volumes/boot/ab-flasher.env'' =
       Some (File (''AB_OS_IMAGE_URL=http://x/img.gz'' @ NL @ ''AB_FORCE=true'' @ NL @
                   ''AB_VERBOSE=1'' @ NL))
   \<and> readlines (''AB_OS_IMAGE_URL=http://x/img.gz'' @ NL @ ''AB_FORCE=true'' @ NL @
                 ''AB_VERBOSE=1'' @ NL) =
       [''AB_OS_IMAGE_URL=http://x/img.gz'' @ NL, ''AB_FORCE=true'' @ NL, ''AB_VERBOSE=1'' @ NL]"
proof -
  have f: "find_data_mount mac_host = Inr ''/Volumes/boot''"
    by (simp add: mac_host_def run_defs)
  have r: "fst (main image_only_vars mac_host) = Inr ()"
    by (simp add: mac_host_def image_only_vars_def run_defs)
  from ab_flasher_env_on_success [OF f pair_fst_snd [OF r]] f r
  show ?thesis by (simp add: path_join_def image_only_vars_def)
qed

section \<open>A second run\<close>

text \<open>
  C7. After a run that succeeded on the volume \<open>t\<close>, with no other mount of the list
  marked, a second run (with any settings) finds the same list of mounts, fails with
  \<open>TargetNotFound\<close>, and leaves the host, and so every artifact of the first run, as it
  was.
\<close>

theorem second_run_target_not_found:
  assumes "get_mounts h = Inr mounts" and "find_data_mount h = Inr t"
    and "\<forall>m \<in> set mounts. m \<noteq> t \<longrightarrow> \<not> marked h m"
    and "main vars h = (Inr (), h')"
  shows "main vars' h' = (Inl TargetNotFound, h')"
proof -
  note f = main_frame [OF assms(2,4)]
  have g: "get_mounts h' = Inr mounts"
    using same_except_get_mounts [OF f host_paths_untouched] assms(1) by simp
  have gone: "nodes h' (with_sep t @ ''.configure_me'') = None"
    by (rule main_results(1) [OF assms(2,4)])
  have "\<not> marked h' m" if m: "m \<in> set mounts" for m
  proof (cases "with_sep m @ ''.configure_me'' = with_sep t @ ''.configure_me''")
    case True
    with gone show ?thesis by (simp add: marked_file)
  next
    case False
    then have "m \<noteq> t" by auto
    with assms(3) m have "\<not> marked h m" by simp
    moreover from False other_marker_untouched [of m vars t]
    have "with_sep m @ ''.configure_me'' \<notin> artifact_paths vars t \<union> {with_sep t @ ''.configure_me''}"
      by simp
    ultimately show ?thesis using same_except_marked [OF f] by simp
  qed
  then have "find_data_mount h' = Inl TargetNotFound"
    using g by (simp add: find_data_mount_def scan_mounts_none)
  then show ?thesis by (rule main_not_located)
qed

theorem second_run_target_not_found_witness:
  "get_mounts mac_host = Inr [''/Volumes/Macintosh HD'', ''/Volumes/boot'']
   \<and> find_data_mount mac_host = Inr ''/Volumes/boot''
   \<and> \<not> marked mac_host ''/Volumes/Macintosh HD''
   \<and> fst (main round_trip_vars mac_host) = Inr ()
   \<and> main round_trip_vars (snd (main round_trip_vars mac_host)) =
       (Inl TargetNotFound, snd (main round_trip_vars mac_host))"
proof -
  have g: "get_mounts mac_host = Inr [''/Volumes/Macintosh HD'', ''/Volumes/boot'']"
    by (simp add: get_mounts_def listdir_def mac_host_def)
  have f: "find_data_mount mac_host = Inr ''/Volumes/boot''"
    by (simp add: mac_host_def run_defs)
  have m: "\<not> marked mac_host ''/Volumes/Macintosh HD''"
    by (simp add: mac_host_def run_defs)
  then have o: "\<forall>m \<in> set [''/Volumes/Macintosh HD'', ''/Volumes/boot''].
                 m \<noteq> ''/Volumes/boot'' \<longrightarrow> \<not> marked mac_host m"
    by simp
  have r: "fst (main round_trip_vars mac_host) = Inr ()"
    by (simp add: mac_host_def round_trip_vars_def run_defs)
  from second_run_target_not_found [OF g f o pair_fst_snd [OF r]] g f m r
  show ?thesis by simp
qed

section \<open>The round trip\<close>

text \<open>
  C8. With \<^verbatim>\<open>final_image="http://x/img.gz"\<close>, \<^verbatim>\<open>ssh_key="ssh-ed25519 AAAA... user@host"\<close>,
  \<^verbatim>\<open>wifi_ssid="Home"\<close>, \<^verbatim>\<open>wifi_password="secret"\<close> and \<^verbatim>\<open>wifi_country="US"\<close>, a run on a
  marked volume of a host that refuses none of its calls succeeds, leaves the three
  artifacts with exactly the text of the templates, and the marker file is gone. (By
  \<open>main_succeeds_iff\<close>, \<open>accepts\<close> is the very condition under which a run succeeds.)
\<close>

theorem round_trip:
  assumes "find_data_mount h = Inr t" and "accepts h round_trip_vars t"
  shows "fst (main round_trip_vars h) = Inr ()
       \<and> nodes (snd (main round_trip_vars h)) (path_join (path_join t ''ssh'') ''authorized_keys'') =
           Some (File (''ssh-ed25519 AAAA... user@host'' @ NL))
       \<and> nodes (snd (main round_trip_vars h)) (path_join (path_join t ''wifi'') ''wpa_supplicant.conf'') =
           Some (File (''ctrl_interface=DIR=/var/run/wpa_supplicant GROUP=netdev'' @ NL @
                       ''update_config=1'' @ NL @ ''country=US'' @ NL @ NL @
                       ''network={'' @ NL @ '' ssid=\"Home\"'' @ NL @ '' psk=\"secret\"'' @ NL @
                       ''}'' @ NL))
       \<and> nodes (snd (main round_trip_vars h)) (path_join t ''ab-flasher.env'') =
           Some (File (''AB_OS_IMAGE_URL=http://x/img.gz'' @ NL @ ''AB_FORCE=true'' @ NL @
                       ''AB_VERBOSE=1'' @ NL))
       \<and> nodes (snd (main round_trip_vars h)) (path_join t CONFIG_FLAG) = None"
proof -
  have ok: "fst (main round_trip_vars h) = Inr ()"
    using assms by (rule main_progress_fst)
  note r = main_results [OF assms(1) pair_fst_snd [OF ok]]
  have "nodes (snd (main round_trip_vars h)) (with_sep t @ ''ssh/authorized_keys'') =
          Some (File (''ssh-ed25519 AAAA... user@host'' @ NL))"
    by (rule r(3) [of "''ssh-ed25519 AAAA... user@host''"]) (simp_all add: round_trip_vars_def)
  moreover have "nodes (snd (main round_trip_vars h)) (with_sep t @ ''wifi/wpa_supplicant.conf'') =
          Some (File (make_supplicant (wifi_country round_trip_vars) (wifi_ssid round_trip_vars)
                        (wifi_password round_trip_vars)))"
    by (rule r(4) [of "''Home''"]) (simp_all add: round_trip_vars_def)
  ultimately show ?thesis using ok r(1,2)
    by (simp add: paths make_supplicant_def format_def round_trip_vars_def)
qed

theorem round_trip_witness:
  "find_data_mount mac_host = Inr ''/Volumes/boot''
   \<and> accepts mac_host round_trip_vars ''/Volumes/boot''
   \<and> fst (main round_trip_vars mac_host) = Inr ()
   \<and> nodes (snd (main round_trip_vars mac_host)) ''/Volumes/boot/ssh/authorized_keys'' =
       Some (File (''ssh-ed25519 AAAA... user@host'' @ NL))
   \<and> nodes (snd (main round_trip_vars mac_host)) ''/Volumes/boot/wifi/wpa_supplicant.conf'' =
       Some (File (''ctrl_interface=DIR=/var/run/wpa_supplicant GROUP=netdev'' @ NL @
                   ''update_config=1'' @ NL @ ''country=US'' @ NL @ NL @
                   ''network={'' @ NL @ '' ssid=\"Home\"'' @ NL @ '' psk=\"secret\"'' @ NL @
                   ''}'' @ NL))
   \<and> nodes (snd (main round_trip_vars mac_host)) ''/Volumes/boot/ab-flasher.env'' =
       Some (File (''AB_OS_IMAGE_URL=http://x/img.gz'' @ NL @ ''AB_FORCE=true'' @ NL @
                   ''AB_VERBOSE=1'' @ NL))
   \<and> nodes (snd (main round_trip_vars mac_host)) ''/Volumes/boot/.configure_me'' = None"
proof -
  have f: "find_data_mount mac_host = Inr ''/Volumes/boot''"
    by (simp add: mac_host_def run_defs)
  have a: "accepts mac_host round_trip_vars ''/Volumes/boot''"
    by (simp add: accepts_def dir_ok_def file_ok_def with_sep_def mac_host_def)
  from round_trip [OF f a] f a show ?thesis
    by (simp add: path_join_def CONFIG_FLAG_def)
qed


section \<open>An absent password\<close>

text \<open>
  C9. When \<^verbatim>\<open>wifi_ssid\<close> is not empty and \<^verbatim>\<open>wifi_password\<close> is \<^verbatim>\<open>None\<close>, a successful run
  has written \<^verbatim>\<open>wifi/wpa_supplicant.conf\<close>, and its psk line is \<^verbatim>\<open> psk="None"\<close>: the
  absent password is printed as the word \<^verbatim>\<open>None\<close>. Nor is the absence refused: where
  this run succeeds, the run with any password in its place succeeds too.
\<close>

theorem absent_password_is_None:
  assumes "find_data_mount h = Inr t" and "main vars h = (Inr (), h')"
    and "wifi_ssid vars = Some s" and "s \<noteq> []" and "wifi_password vars = None"
  shows "nodes h' (path_join (path_join t ''wifi'') ''wpa_supplicant.conf'') =
           Some (File (''ctrl_interface=DIR=/var/run/wpa_supplicant GROUP=netdev'' @ NL @
                       ''update_config=1'' @ NL @ ''country='' @ wifi_country vars @ NL @ NL @
                       ''network={'' @ NL @ '' ssid=\"'' @ s @ ''\"'' @ NL @
                       '' psk=\"None\"'' @ NL @ ''}'' @ NL))
       \<and> (\<forall>pw. (fst (main (vars\<lparr>wifi_password := Some pw\<rparr>) h) = Inr ()))"
proof
  show "nodes h' (path_join (path_join t ''wifi'') ''wpa_supplicant.conf'') =
           Some (File (''ctrl_interface=DIR=/var/run/wpa_supplicant GROUP=netdev'' @ NL @
                       ''update_config=1'' @ NL @ ''country='' @ wifi_country vars @ NL @ NL @
                       ''network={'' @ NL @ '' ssid=\"'' @ s @ ''\"'' @ NL @
                       '' psk=\"None\"'' @ NL @ ''}'' @ NL))"
    using main_results(4) [OF assms(1,2,3,4)] assms(3,5)
    by (simp add: paths make_supplicant_def format_def)
  from main_Inr_accepts [OF assms(1,2)]
  show "\<forall>pw. (fst (main (vars\<lparr>wifi_password := Some pw\<rparr>) h) = Inr ())"
    by (simp add: main_succeeds_iff [OF assms(1)] accepts_password)
qed

theorem absent_password_is_None_witness:
  "find_data_mount linux_host = Inr ''/media/data''
   \<and> fst (main no_password_vars linux_host) = Inr ()
   \<and> wifi_ssid no_password_vars = Some ''Home'' \<and> wifi_password no_password_vars = None
   \<and> fst (main (no_password_vars\<lparr>wifi_password := Some ''secret''\<rparr>) linux_host) = Inr ()
   \<and> nodes (snd (main no_password_vars linux_host)) ''/media/data/wifi/wpa_supplicant.conf'' =
       Some (File (''ctrl_interface=DIR=/var/run/wpa_supplicant GROUP=netdev'' @ NL @
                   ''update_config=1'' @ NL @ ''country=NZ'' @ NL @ NL @
                   ''network={'' @ NL @ '' ssid=\"Home\"'' @ NL @ '' psk=\"None\"'' @ NL @
                   ''}'' @ NL))"
proof -
  have f: "find_data_mount linux_host = Inr ''/media/data''"
    by (simp add: linux_host_def run_defs readlines_def second_field_def str_split_def is_space_def)
  have r: "fst (main no_password_vars linux_host) = Inr ()"
    by (simp add: linux_host_def no_password_vars_def run_defs readlines_def second_field_def
        str_split_def is_space_def)
  have v: "wifi_ssid no_password_vars = Some ''Home''" "wifi_password no_password_vars = None"
    "wifi_country no_password_vars = ''NZ''"
    by (simp_all add: no_password_vars_def)
  from absent_password_is_None [OF f pair_fst_snd [OF r] v(1) _ v(2)] f r v
  show ?thesis by (simp add: path_join_def)
qed

section \<open>Lines of the mount table with fewer than two fields\<close>

text \<open>
  C10. On the path through \<^verbatim>\<open>/proc/mounts\<close> (no \<^verbatim>\<open>/Volumes\<close>, the file can be opened):
  when some line has fewer than two white-space separated fields, an empty line for one,
  \<^verbatim>\<open>get_mounts\<close> ends with \<^verbatim>\<open>IndexError\<close>, not with \<open>UnsupportedPlatform\<close>; when every
  line has two fields it returns the second field of each.
\<close>

theorem get_mounts_short_line:
  assumes "listdir h ''/Volumes'' = Inl FileNotFoundError"
    and "open_r h ''/proc/mounts'' = Inr content"
  shows "((\<exists>l \<in> set (readlines content). length (str_split l) < 2) \<longrightarrow>
            get_mounts h = Inl IndexError \<and> get_mounts h \<noteq> Inl UnsupportedPlatform)
       \<and> ((\<forall>l \<in> set (readlines content). 2 \<le> length (str_split l)) \<longrightarrow>
            get_mounts h = Inr (map (\<lambda>l. str_split l ! 1) (readlines content)))"
  using assms
  by (auto simp: get_mounts_def comprehension_second_field UnsupportedPlatform_def)

theorem get_mounts_short_line_witness:
  "listdir blank_line_host ''/Volumes'' = Inl FileNotFoundError
   \<and> open_r blank_line_host ''/proc/mounts'' = Inr (''/dev/sdb2 /media/data ext4 rw 0 0'' @ NL @ NL)
   \<and> readlines (''/dev/sdb2 /media/data ext4 rw 0 0'' @ NL @ NL) =
       [''/dev/sdb2 /media/data ext4 rw 0 0'' @ NL, NL]
   \<and> str_split NL = []
   \<and> get_mounts blank_line_host = Inl IndexError
   \<and> get_mounts linux_host = Inr [''/proc'', ''/'', ''/media/data'']"
proof -
  have l: "listdir blank_line_host ''/Volumes'' = Inl FileNotFoundError"
    by (simp add: listdir_def blank_line_host_def linux_host_def)
  have o: "open_r blank_line_host ''/proc/mounts'' = Inr (''/dev/sdb2 /media/data ext4 rw 0 0'' @ NL @ NL)"
    by (simp add: open_r_def blank_line_host_def linux_host_def)
  have rl: "readlines (''/dev/sdb2 /media/data ext4 rw 0 0'' @ NL @ NL) =
       [''/dev/sdb2 /media/data ext4 rw 0 0'' @ NL, NL]"
    by (simp add: readlines_def)
  have sp: "str_split NL = []" by (simp add: str_split_def is_space_def)
  have l2: "listdir linux_host ''/Volumes'' = Inl FileNotFoundError"
    by (simp add: listdir_def linux_host_def)
  have o2: "open_r linux_host ''/proc/mounts'' =
      Inr (''proc /proc proc rw 0 0'' @ NL @ ''/dev/sda1 / ext4 rw 0 0'' @ NL @
                       ''/dev/sdb2 /media/data ext4 rw 0 0'' @ NL)"
    by (simp add: open_r_def linux_host_def)
  from get_mounts_short_line [OF l o, THEN conjunct1] rl sp
  have "get_mounts blank_line_host = Inl IndexError" by simp
  moreover from get_mounts_short_line [OF l2 o2, THEN conjunct2]
  have "get_mounts linux_host = Inr [''/proc'', ''/'', ''/media/data'']"
    by (simp add: readlines_def str_split_def is_space_def)
  ultimately show ?thesis using l o rl sp by simp
qed


end
